theory Spec2Isabelle
  imports Main
begin

section \<open>Data model\<close>

text \<open>
  The workflows controller of the engine (package \<open>workflows\<close>): the task router, the
  group-key scheduler, the admission engine, the reconciler and the supervisor.  The
  controller is a client of two collaborators it receives as interfaces, the repository
  (\<open>wc.repo\<close>) and the message queue (\<open>wc.mq\<close>).  Their answers are parameters of the
  model (the record \<open>env\<close>); every call the controller makes to them is appended to a
  trace, so that what the controller asks for, and in which order, can be stated.
\<close>

type_synonym uuid = string

text \<open>An instant, in nanoseconds after the zero instant of \<open>time.Time\<close>.\<close>

type_synonym time = int

definition Second :: int where
  "Second = 1000000000"

definition IsZero :: "time \<Rightarrow> bool" where
  "IsZero t = (t = 0)"

definition Before :: "time \<Rightarrow> time \<Rightarrow> bool" where
  "Before t u = (t < u)"

text \<open>
  Go errors.  \<open>Errorf s e\<close> is \<open>fmt.Errorf("s: %w", e)\<close>, \<open>ErrorNew s\<close> an error made from
  a text alone, \<open>ErrExternal s\<close> any error value a collaborator returns,
  \<open>Panic s\<close> a run-time panic.
\<close>

datatype error =
    ErrNoWorkerAvailable
  | ErrExternal string
  | Errorf string error
  | ErrorNew string
  | MultiError "error list"
  | Panic string

text \<open>
  \<open>errors.Is\<close>: the error itself, the error an \<open>Errorf\<close> wraps, or any error a
  multierror holds.
\<close>

fun errors_Is :: "error \<Rightarrow> error \<Rightarrow> bool" where
  "errors_Is (Errorf s e) target = (Errorf s e = target \<or> errors_Is e target)"
| "errors_Is (MultiError es) target = (MultiError es = target \<or> list_ex (\<lambda>e. errors_Is e target) es)"
| "errors_Is e target = (e = target)"

definition multierror_Append :: "error \<Rightarrow> error \<Rightarrow> error" where
  "multierror_Append e1 e2 = (case e1 of MultiError es \<Rightarrow> MultiError (es @ [e2]) | _ \<Rightarrow> MultiError [e1, e2])"

datatype step_run_status =
    StepRunStatusPending
  | StepRunStatusPendingAssignment
  | StepRunStatusAssigned
  | StepRunStatusRunning
  | StepRunStatusSucceeded
  | StepRunStatusFailed
  | StepRunStatusCancelled

datatype workflow_run_status =
    WorkflowRunStatusPending
  | WorkflowRunStatusQueued
  | WorkflowRunStatusRunning
  | WorkflowRunStatusSucceeded
  | WorkflowRunStatusFailed

text \<open>The limit strategy is a string type in the source; any other text is \<open>OtherLimitStrategy\<close>.\<close>

datatype limit_strategy =
    ConcurrencyLimitStrategyCancelInProgress
  | ConcurrencyLimitStrategyGroupRoundRobin
  | OtherLimitStrategy string

record workflow_concurrency =
  wc_WorkflowVersionID :: uuid
  wc_MaxRuns :: int
  wc_LimitStrategy :: limit_strategy

text \<open>\<open>Concurrency()\<close> of a workflow version returns the policy and whether there is one.\<close>

record workflow_version =
  wv_ID :: uuid
  wv_Concurrency :: "workflow_concurrency option"

record job_run =
  jr_ID :: uuid
  jr_Job :: uuid

record workflow_run =
  wr_ID :: uuid
  wr_WorkflowVersion :: workflow_version
  wr_GetGroupKeyRun :: "uuid option"
  wr_JobRuns :: "job_run list"

record step_run =
  sr_ID :: uuid

text \<open>
  A group-key run as the engine reads it (\<open>GetGroupKeyRunForEngineRow\<close>): the row, and the
  ids of its workflow run and workflow version.  A nullable uuid column is the text
  \<open>UUIDToStr\<close> gives for it.
\<close>

record get_group_key_run =
  gk_ID :: uuid
  gk_TenantId :: uuid
  gk_WorkflowRunId :: uuid
  gk_WorkflowVersionId :: uuid
  gk_WorkerId :: uuid
  gk_DispatcherId :: uuid
  gk_TickerId :: uuid
  gk_Status :: step_run_status
  gk_StartedAt :: "time option"
  gk_FinishedAt :: "time option"
  gk_Output :: "string option"
  gk_Error :: "string option"
  gk_CancelledAt :: "time option"
  gk_CancelledReason :: "string option"
  gk_RequeueAfter :: "time option"
  gk_ScheduleTimeoutAt :: time

text \<open>\<open>UpdateGetGroupKeyRunOpts\<close>: each field is a pointer, nil when the field is not to be set.\<close>

record update_opts =
  uo_Status :: "step_run_status option"
  uo_StartedAt :: "time option"
  uo_FinishedAt :: "time option"
  uo_Output :: "string option"
  uo_Error :: "string option"
  uo_CancelledAt :: "time option"
  uo_CancelledReason :: "string option"
  uo_RequeueAfter :: "time option"

definition no_update :: update_opts where
  "no_update = \<lparr>uo_Status = None, uo_StartedAt = None, uo_FinishedAt = None, uo_Output = None,
     uo_Error = None, uo_CancelledAt = None, uo_CancelledReason = None, uo_RequeueAfter = None\<rparr>"

record list_workflow_runs_opts =
  lw_WorkflowVersionId :: "uuid option"
  lw_GroupKey :: "string option"
  lw_Status :: "workflow_run_status option"
  lw_OrderBy :: "string option"
  lw_OrderDirection :: "string option"
  lw_Limit :: "int option"

record list_step_runs_opts =
  ls_WorkflowRunId :: "uuid option"
  ls_Status :: "step_run_status option"

subsection \<open>Messages\<close>

text \<open>
  A message carries a tag, a payload, metadata and a retry count.  Payload and metadata are
  JSON maps in the source, made from and decoded into the typed structs of \<open>tasktypes\<close>;
  here they are those structs, and \<open>OpaquePayload\<close>, \<open>OpaqueMetadata\<close> stand for any map
  that is none of them.
\<close>

datatype payload =
    WorkflowRunQueuedTaskPayload uuid
  | WorkflowRunFinishedTask uuid
  | GetGroupKeyRunStartedTaskPayload uuid string
  | GetGroupKeyRunFinishedTaskPayload uuid string string
  | GetGroupKeyRunFailedTaskPayload uuid string string
  | GroupKeyActionAssignedTaskPayload uuid uuid
  | StepRunNotifyCancelTaskPayload uuid string
  | ScheduleGetGroupKeyRunTimeoutTaskPayload uuid uuid string
  | CancelGetGroupKeyRunTimeoutTaskPayload uuid
  | OpaquePayload string

datatype metadata =
    TenantMetadata uuid
  | GroupKeyActionAssignedTaskMetadata uuid uuid
  | OpaqueMetadata string

record message =
  msg_ID :: string
  msg_Payload :: payload
  msg_Metadata :: metadata
  msg_Retries :: int

datatype queue =
    JOB_PROCESSING_QUEUE
  | WORKFLOW_PROCESSING_QUEUE
  | QueueTypeFromDispatcherID uuid
  | QueueTypeFromTickerID uuid

subsection \<open>The collaborators\<close>

text \<open>
  What the repository, the queue, the clock and the library functions answer.  The reads
  of the repository answer by their arguments; \<open>repoPopWorkflowRunsRoundRobin\<close> also sees
  the runs popped so far, so that each call can return the next batch; \<open>mqAddMessage\<close>
  also sees how many calls were made before it, so that a send may fail once and succeed
  later.
\<close>

record env =
  clock :: "nat \<Rightarrow> time"
  parseRFC3339 :: "string \<Rightarrow> time option"
  formatRFC3339 :: "time \<Rightarrow> string"
  DefaultStepRunTimeout :: string
  ParseDuration :: "string \<Rightarrow> int option"
  validPayload :: "payload \<Rightarrow> bool"
  validMetadata :: "metadata \<Rightarrow> bool"
  JobRunQueuedToTask :: "job_run \<Rightarrow> message"
  mqAddMessage :: "nat \<Rightarrow> queue \<Rightarrow> message \<Rightarrow> error option"
  repoGetWorkflowRunById :: "uuid \<Rightarrow> uuid \<Rightarrow> error + workflow_run"
  repoGetWorkflowVersionById :: "uuid \<Rightarrow> uuid \<Rightarrow> error + workflow_version"
  repoListWorkflowRuns :: "uuid \<Rightarrow> list_workflow_runs_opts \<Rightarrow> error + uuid list"
  repoPopWorkflowRunsRoundRobin :: "uuid list \<Rightarrow> uuid \<Rightarrow> uuid \<Rightarrow> int \<Rightarrow> error + uuid list"
  repoListStepRuns :: "uuid \<Rightarrow> list_step_runs_opts \<Rightarrow> error + step_run list"
  repoAssignGetGroupKeyRunToWorker :: "uuid \<Rightarrow> uuid \<Rightarrow> error + (uuid \<times> uuid)"
  repoAssignGetGroupKeyRunToTicker :: "uuid \<Rightarrow> uuid \<Rightarrow> error + uuid"
  repoListGetGroupKeyRunsToRequeue :: "uuid \<Rightarrow> error + get_group_key_run list"
  repoListGetGroupKeyRunsToReassign :: "uuid \<Rightarrow> error + get_group_key_run list"
  repoListTenants :: "error + uuid list"

text \<open>
  The trace: one event for every call to the repository or the queue, and one on entry
  to each of the controller's own routines that a claim speaks of.
\<close>

datatype event =
    CallScheduleGetGroupAction get_group_key_run
  | CallCancelWorkflowRun uuid uuid
  | CallQueueWorkflowRunJobs workflow_run
  | RepoUpdateGetGroupKeyRun uuid uuid update_opts
  | RepoGetGroupKeyRunForEngine uuid uuid
  | RepoAssignGetGroupKeyRunToWorker uuid uuid
  | RepoAssignGetGroupKeyRunToTicker uuid uuid
  | RepoGetWorkflowRunById uuid uuid
  | RepoGetWorkflowVersionById uuid uuid
  | RepoListWorkflowRuns uuid list_workflow_runs_opts
  | RepoPopWorkflowRunsRoundRobin uuid uuid int
  | RepoListStepRuns uuid list_step_runs_opts
  | RepoListGetGroupKeyRunsToRequeue uuid
  | RepoListGetGroupKeyRunsToReassign uuid
  | RepoListTenants
  | MqAddMessage queue message

text \<open>
  The state.  What the repository holds: the table of group-key runs, and the workflow
  runs popped so far, which are no longer QUEUED.  Beside it, the trace and the number
  of clock readings made so far.
\<close>

record world =
  gkrs :: "uuid \<rightharpoonup> get_group_key_run"
  poppedRuns :: "uuid list"
  trace :: "event list"
  ticks :: nat

definition emit :: "event \<Rightarrow> world \<Rightarrow> world" where
  "emit e w = w\<lparr>trace := trace w @ [e]\<rparr>"

definition Now :: "env \<Rightarrow> world \<Rightarrow> time \<times> world" where
  "Now env w = (clock env (ticks w), w\<lparr>ticks := Suc (ticks w)\<rparr>)"

definition AddMessage :: "env \<Rightarrow> queue \<Rightarrow> message \<Rightarrow> world \<Rightarrow> error option \<times> world" where
  "AddMessage env q m w = (mqAddMessage env (length (trace w)) q m, emit (MqAddMessage q m) w)"

subsection \<open>The repository's reads\<close>

definition GetWorkflowRunById :: "env \<Rightarrow> uuid \<Rightarrow> uuid \<Rightarrow> world \<Rightarrow> (error + workflow_run) \<times> world" where
  "GetWorkflowRunById env tenantId workflowRunId w =
     (repoGetWorkflowRunById env tenantId workflowRunId, emit (RepoGetWorkflowRunById tenantId workflowRunId) w)"

definition GetWorkflowVersionById :: "env \<Rightarrow> uuid \<Rightarrow> uuid \<Rightarrow> world \<Rightarrow> (error + workflow_version) \<times> world" where
  "GetWorkflowVersionById env tenantId workflowVersionId w =
     (repoGetWorkflowVersionById env tenantId workflowVersionId,
      emit (RepoGetWorkflowVersionById tenantId workflowVersionId) w)"

definition ListWorkflowRuns :: "env \<Rightarrow> uuid \<Rightarrow> list_workflow_runs_opts \<Rightarrow> world \<Rightarrow> (error + uuid list) \<times> world" where
  "ListWorkflowRuns env tenantId opts w =
     (repoListWorkflowRuns env tenantId opts, emit (RepoListWorkflowRuns tenantId opts) w)"

definition ListStepRuns :: "env \<Rightarrow> uuid \<Rightarrow> list_step_runs_opts \<Rightarrow> world \<Rightarrow> (error + step_run list) \<times> world" where
  "ListStepRuns env tenantId opts w =
     (repoListStepRuns env tenantId opts, emit (RepoListStepRuns tenantId opts) w)"

definition ListGetGroupKeyRunsToRequeue :: "env \<Rightarrow> uuid \<Rightarrow> world \<Rightarrow> (error + get_group_key_run list) \<times> world" where
  "ListGetGroupKeyRunsToRequeue env tenantId w =
     (repoListGetGroupKeyRunsToRequeue env tenantId, emit (RepoListGetGroupKeyRunsToRequeue tenantId) w)"

definition ListGetGroupKeyRunsToReassign :: "env \<Rightarrow> uuid \<Rightarrow> world \<Rightarrow> (error + get_group_key_run list) \<times> world" where
  "ListGetGroupKeyRunsToReassign env tenantId w =
     (repoListGetGroupKeyRunsToReassign env tenantId, emit (RepoListGetGroupKeyRunsToReassign tenantId) w)"

definition ListTenants :: "env \<Rightarrow> world \<Rightarrow> (error + uuid list) \<times> world" where
  "ListTenants env w = (repoListTenants env, emit RepoListTenants w)"

subsection \<open>The repository's writes to group-key runs\<close>

definition is_terminal :: "step_run_status \<Rightarrow> bool" where
  "is_terminal s = (s = StepRunStatusSucceeded \<or> s = StepRunStatusFailed \<or> s = StepRunStatusCancelled)"

text \<open>
  Modelled from the spec: the repository's \<open>UpdateGetGroupKeyRun\<close> is not among the
  sources.  The patch has "set if present" semantics: an absent field leaves the column
  as it is, a present one sets it.
\<close>

definition set_if_present :: "'a option \<Rightarrow> 'a option \<Rightarrow> 'a option" where
  "set_if_present new old = (case new of None \<Rightarrow> old | Some v \<Rightarrow> Some v)"

text \<open>
  Modelled from the spec: what \<open>UpdateGetGroupKeyRun\<close> (not among the sources) does to
  the row.  "The terminal-status update is a no-op if already terminal": a patch that
  sets a terminal status (SUCCEEDED, FAILED, CANCELLED) on a run that is in a terminal
  state changes nothing.  Any other patch sets every field it carries, but "GroupKeyRun
  status never transitions out of a terminal state": the status of a terminal run stays.
\<close>

definition apply_update_opts :: "update_opts \<Rightarrow> get_group_key_run \<Rightarrow> get_group_key_run" where
  "apply_update_opts opts g =
     (if is_terminal (gk_Status g) \<and> (case uo_Status opts of None \<Rightarrow> False | Some s \<Rightarrow> is_terminal s)
      then g
      else g\<lparr>
        gk_Status := (if is_terminal (gk_Status g) then gk_Status g
                      else (case uo_Status opts of None \<Rightarrow> gk_Status g | Some s \<Rightarrow> s)),
        gk_StartedAt := set_if_present (uo_StartedAt opts) (gk_StartedAt g),
        gk_FinishedAt := set_if_present (uo_FinishedAt opts) (gk_FinishedAt g),
        gk_Output := set_if_present (uo_Output opts) (gk_Output g),
        gk_Error := set_if_present (uo_Error opts) (gk_Error g),
        gk_CancelledAt := set_if_present (uo_CancelledAt opts) (gk_CancelledAt g),
        gk_CancelledReason := set_if_present (uo_CancelledReason opts) (gk_CancelledReason g),
        gk_RequeueAfter := set_if_present (uo_RequeueAfter opts) (gk_RequeueAfter g)\<rparr>)"

text \<open>
  Modelled from the spec: the lookup behind the repository's operations on one group-key
  run (not among the sources).  "All operations carry the tenant id and fail with
  NotFound": a run is found under its id and its tenant.
\<close>

definition lookup_gkr :: "world \<Rightarrow> uuid \<Rightarrow> uuid \<Rightarrow> error + get_group_key_run" where
  "lookup_gkr w tenantId getGroupKeyRunId =
     (case gkrs w getGroupKeyRunId of
        None \<Rightarrow> Inl (ErrExternal ''NotFound'')
      | Some g \<Rightarrow> if gk_TenantId g = tenantId then Inr g else Inl (ErrExternal ''NotFound''))"

text \<open>
  Modelled from the spec: \<open>UpdateGetGroupKeyRun\<close> of the repository (not among the
  sources), \<open>Update(tenant, id, patch)\<close>: it patches the run and returns the patched row.
\<close>

definition UpdateGetGroupKeyRun ::
  "uuid \<Rightarrow> uuid \<Rightarrow> update_opts \<Rightarrow> world \<Rightarrow> (error + get_group_key_run) \<times> world" where
  "UpdateGetGroupKeyRun tenantId getGroupKeyRunId opts w =
     (let w1 = emit (RepoUpdateGetGroupKeyRun tenantId getGroupKeyRunId opts) w in
      case lookup_gkr w tenantId getGroupKeyRunId of
        Inl err \<Rightarrow> (Inl err, w1)
      | Inr g \<Rightarrow>
          (let g' = apply_update_opts opts g
           in (Inr g', w1\<lparr>gkrs := (gkrs w1)(getGroupKeyRunId \<mapsto> g')\<rparr>)))"

text \<open>
  Modelled from the spec: \<open>GetGroupKeyRunForEngine\<close> of the repository (not among the
  sources), \<open>GetForEngine(tenant, id)\<close>.
\<close>

definition GetGroupKeyRunForEngine :: "uuid \<Rightarrow> uuid \<Rightarrow> world \<Rightarrow> (error + get_group_key_run) \<times> world" where
  "GetGroupKeyRunForEngine tenantId getGroupKeyRunId w =
     (lookup_gkr w tenantId getGroupKeyRunId, emit (RepoGetGroupKeyRunForEngine tenantId getGroupKeyRunId) w)"

text \<open>
  Modelled from the spec: \<open>AssignGetGroupKeyRunToWorker\<close> of the repository (not among
  the sources).  Which worker it picks, or that none is available, is its answer (\<open>env\<close>);
  "on success the store records the assignment (worker_id, dispatcher_id) and returns
  both".
\<close>

definition AssignGetGroupKeyRunToWorker ::
  "env \<Rightarrow> uuid \<Rightarrow> uuid \<Rightarrow> world \<Rightarrow> (error + (uuid \<times> uuid)) \<times> world" where
  "AssignGetGroupKeyRunToWorker env tenantId getGroupKeyRunId w =
     (let w1 = emit (RepoAssignGetGroupKeyRunToWorker tenantId getGroupKeyRunId) w in
      case repoAssignGetGroupKeyRunToWorker env tenantId getGroupKeyRunId of
        Inl err \<Rightarrow> (Inl err, w1)
      | Inr (workerId, dispatcherId) \<Rightarrow>
          (case lookup_gkr w tenantId getGroupKeyRunId of
             Inl err \<Rightarrow> (Inl err, w1)
           | Inr g \<Rightarrow> (Inr (workerId, dispatcherId),
                 w1\<lparr>gkrs := (gkrs w1)(getGroupKeyRunId \<mapsto> g\<lparr>gk_WorkerId := workerId, gk_DispatcherId := dispatcherId\<rparr>)\<rparr>)))"

text \<open>
  Modelled from the spec: \<open>AssignGetGroupKeyRunToTicker\<close> of the repository (not among
  the sources), \<open>AssignToTicker(tenant, id)\<close>; the ticker is its answer and is recorded on
  the run.
\<close>

definition AssignGetGroupKeyRunToTicker ::
  "env \<Rightarrow> uuid \<Rightarrow> uuid \<Rightarrow> world \<Rightarrow> (error + uuid) \<times> world" where
  "AssignGetGroupKeyRunToTicker env tenantId getGroupKeyRunId w =
     (let w1 = emit (RepoAssignGetGroupKeyRunToTicker tenantId getGroupKeyRunId) w in
      case repoAssignGetGroupKeyRunToTicker env tenantId getGroupKeyRunId of
        Inl err \<Rightarrow> (Inl err, w1)
      | Inr tickerId \<Rightarrow>
          (case lookup_gkr w tenantId getGroupKeyRunId of
             Inl err \<Rightarrow> (Inl err, w1)
           | Inr g \<Rightarrow> (Inr tickerId, w1\<lparr>gkrs := (gkrs w1)(getGroupKeyRunId \<mapsto> g\<lparr>gk_TickerId := tickerId\<rparr>)\<rparr>)))"

subsection \<open>The repository's pop of queued workflow runs\<close>

text \<open>
  Modelled from the spec: \<open>PopWorkflowRunsRoundRobin\<close> of the repository (not among the
  sources), which "atomically selects the next batch of QUEUED runs in round-robin order
  over group keys and returns their ids".  Which runs make the next batch is the
  repository's answer (\<open>env\<close>), given the runs popped so far; the runs it returns are
  popped, that is, no longer QUEUED.
\<close>

definition PopWorkflowRunsRoundRobin :: "env \<Rightarrow> uuid \<Rightarrow> uuid \<Rightarrow> int \<Rightarrow> world \<Rightarrow> (error + uuid list) \<times> world" where
  "PopWorkflowRunsRoundRobin env tenantId workflowVersionId maxRuns w =
     (let w1 = emit (RepoPopWorkflowRunsRoundRobin tenantId workflowVersionId maxRuns) w in
      case repoPopWorkflowRunsRoundRobin env (poppedRuns w) tenantId workflowVersionId maxRuns of
        Inl err \<Rightarrow> (Inl err, w1)
      | Inr batch \<Rightarrow> (Inr batch, w1\<lparr>poppedRuns := poppedRuns w1 @ batch\<rparr>))"

section \<open>The controller\<close>

subsection \<open>Concurrent groups\<close>

text \<open>
  \<open>errgroup.Group\<close>: \<open>Go\<close> starts each function, \<open>Wait\<close> waits for all of them and returns
  the first error.  No function is stopped because another failed.  The functions are
  run here one after the other in the order they were started, which is one of the
  schedules the source allows.
\<close>

fun errgroup_Wait :: "('s \<Rightarrow> error option \<times> 's) list \<Rightarrow> 's \<Rightarrow> error option \<times> 's" where
  "errgroup_Wait [] w = (None, w)"
| "errgroup_Wait (f # fs) w =
     (case f w of (e, w1) \<Rightarrow>
        (case errgroup_Wait fs w1 of (es, w2) \<Rightarrow>
           ((case e of Some x \<Rightarrow> Some x | None \<Rightarrow> es), w2)))"

subsection \<open>Tasks the controller builds\<close>

definition getGroupActionTask :: "uuid \<Rightarrow> uuid \<Rightarrow> uuid \<Rightarrow> uuid \<Rightarrow> message" where
  "getGroupActionTask tenantId workflowRunId workerId dispatcherId =
     \<lparr>msg_ID = ''group-key-action-assigned'',
      msg_Payload = GroupKeyActionAssignedTaskPayload workflowRunId workerId,
      msg_Metadata = GroupKeyActionAssignedTaskMetadata tenantId dispatcherId,
      msg_Retries = 3\<rparr>"

definition getStepRunNotifyCancelTask :: "uuid \<Rightarrow> uuid \<Rightarrow> string \<Rightarrow> message" where
  "getStepRunNotifyCancelTask tenantId stepRunId reason =
     \<lparr>msg_ID = ''step-run-cancelled'',
      msg_Payload = StepRunNotifyCancelTaskPayload stepRunId reason,
      msg_Metadata = TenantMetadata tenantId,
      msg_Retries = 3\<rparr>"

definition scheduleGetGroupKeyRunTimeoutTask ::
  "env \<Rightarrow> uuid \<Rightarrow> uuid \<Rightarrow> uuid \<Rightarrow> world \<Rightarrow> (error + message) \<times> world" where
  "scheduleGetGroupKeyRunTimeoutTask env tenantId workflowRunId getGroupKeyRunId w =
     (case ParseDuration env (DefaultStepRunTimeout env) of
        None \<Rightarrow> (Inl (Errorf ''could not parse duration'' (ErrExternal ''time: invalid duration'')), w)
      | Some duration \<Rightarrow>
          (case Now env w of (now, w1) \<Rightarrow>
             (let timeoutAt = now + duration in
              (Inr \<lparr>msg_ID = ''schedule-get-group-key-run-timeout'',
                    msg_Payload = ScheduleGetGroupKeyRunTimeoutTaskPayload getGroupKeyRunId workflowRunId
                                    (formatRFC3339 env timeoutAt),
                    msg_Metadata = TenantMetadata tenantId,
                    msg_Retries = 3\<rparr>, w1))))"

definition cancelGetGroupKeyRunTimeoutTask :: "get_group_key_run \<Rightarrow> message" where
  "cancelGetGroupKeyRunTimeoutTask getGroupKeyRun =
     \<lparr>msg_ID = ''cancel-get-group-key-run-timeout'',
      msg_Payload = CancelGetGroupKeyRunTimeoutTaskPayload (gk_ID getGroupKeyRun),
      msg_Metadata = TenantMetadata (gk_TenantId getGroupKeyRun),
      msg_Retries = 3\<rparr>"

subsection \<open>Releasing and cancelling workflow runs\<close>

text \<open>
  \<open>queueWorkflowRunJobs\<close>: the function declares \<open>err\<close>, and the loop body declares an
  \<open>err\<close> of its own with \<open>:=\<close>; the append inside the body assigns the inner one.  The
  loop threads the outer variable and the function returns it.
\<close>

fun queueWorkflowRunJobs_loop :: "env \<Rightarrow> job_run list \<Rightarrow> error option \<Rightarrow> world \<Rightarrow> error option \<times> world" where
  "queueWorkflowRunJobs_loop env [] err w = (err, w)"
| "queueWorkflowRunJobs_loop env (jobRun # jobRuns) err w =
     (case AddMessage env JOB_PROCESSING_QUEUE (JobRunQueuedToTask env jobRun) w of
        (inner_err, w1) \<Rightarrow>
          (let inner_err' =
                 (case inner_err of
                    None \<Rightarrow> None
                  | Some e \<Rightarrow> Some (multierror_Append e (Errorf ''could not add job run to task queue'' e)))
           in queueWorkflowRunJobs_loop env jobRuns err w1))"

definition queueWorkflowRunJobs :: "env \<Rightarrow> workflow_run \<Rightarrow> world \<Rightarrow> error option \<times> world" where
  "queueWorkflowRunJobs env workflowRun w =
     queueWorkflowRunJobs_loop env (wr_JobRuns workflowRun) None (emit (CallQueueWorkflowRunJobs workflowRun) w)"

definition cancelWorkflowRun :: "env \<Rightarrow> uuid \<Rightarrow> uuid \<Rightarrow> world \<Rightarrow> error option \<times> world" where
  "cancelWorkflowRun env tenantId workflowRunId w =
     (case GetWorkflowRunById env tenantId workflowRunId (emit (CallCancelWorkflowRun tenantId workflowRunId) w) of
        (Inl err, w1) \<Rightarrow> (Some (Errorf ''could not get workflow run'' err), w1)
      | (Inr workflowRun, w1) \<Rightarrow>
          (case ListStepRuns env tenantId
                  \<lparr>ls_WorkflowRunId = Some (wr_ID workflowRun), ls_Status = Some StepRunStatusRunning\<rparr> w1 of
             (Inl err, w2) \<Rightarrow> (Some (Errorf ''could not list step runs'' err), w2)
           | (Inr stepRuns, w2) \<Rightarrow>
               errgroup_Wait
                 (map (\<lambda>stepRunCp. AddMessage env JOB_PROCESSING_QUEUE
                         (getStepRunNotifyCancelTask tenantId (sr_ID stepRunCp) ''CANCELLED_BY_CONCURRENCY_LIMIT''))
                    stepRuns) w2))"

text \<open>
  The function both admission strategies start for each run they release: fetch the
  run, then enqueue its job runs.
\<close>

definition releaseWorkflowRun :: "env \<Rightarrow> uuid \<Rightarrow> uuid \<Rightarrow> world \<Rightarrow> error option \<times> world" where
  "releaseWorkflowRun env tenantId workflowRunId w =
     (case GetWorkflowRunById env tenantId workflowRunId w of
        (Inl err, w1) \<Rightarrow> (Some (Errorf ''could not get workflow run'' err), w1)
      | (Inr workflowRun, w1) \<Rightarrow> queueWorkflowRunJobs env workflowRun w1)"

subsection \<open>Schedule\<close>

definition scheduleGetGroupAction :: "env \<Rightarrow> get_group_key_run \<Rightarrow> world \<Rightarrow> error option \<times> world" where
  "scheduleGetGroupAction env getGroupKeyRun w0 =
     (let w = emit (CallScheduleGetGroupAction getGroupKeyRun) w0;
          tenantId = gk_TenantId getGroupKeyRun;
          getGroupKeyRunId = gk_ID getGroupKeyRun;
          workflowRunId = gk_WorkflowRunId getGroupKeyRun
      in
      case UpdateGetGroupKeyRun tenantId getGroupKeyRunId
             (no_update\<lparr>uo_Status := Some StepRunStatusPendingAssignment\<rparr>) w of
        (Inl err, w1) \<Rightarrow> (Some (Errorf ''could not update get group key run'' err), w1)
      | (Inr updated, w1) \<Rightarrow>
      (case AssignGetGroupKeyRunToWorker env tenantId getGroupKeyRunId w1 of
        (Inl err, w2) \<Rightarrow>
          (if errors_Is err ErrNoWorkerAvailable then (None, w2)
           else (Some (Errorf ''could not assign get group key run to worker'' err), w2))
      | (Inr (selectedWorkerId, dispatcherId), w2) \<Rightarrow>
      (case AssignGetGroupKeyRunToTicker env tenantId getGroupKeyRunId w2 of
        (Inl err, w3) \<Rightarrow> (Some (Errorf ''could not assign get group key run to ticker'' err), w3)
      | (Inr tickerId, w3) \<Rightarrow>
      (case scheduleGetGroupKeyRunTimeoutTask env tenantId workflowRunId getGroupKeyRunId w3 of
        (Inl err, w4) \<Rightarrow> (Some (Errorf ''could not schedule get group key run timeout task'' err), w4)
      | (Inr scheduleTimeoutTask, w4) \<Rightarrow>
      (case AddMessage env (QueueTypeFromDispatcherID dispatcherId)
              (getGroupActionTask tenantId workflowRunId selectedWorkerId dispatcherId) w4 of
        (Some err, w5) \<Rightarrow> (Some (Errorf ''could not add job assigned task to task queue'' err), w5)
      | (None, w5) \<Rightarrow>
      (case AddMessage env (QueueTypeFromTickerID tickerId) scheduleTimeoutTask w5 of
        (Some err, w6) \<Rightarrow>
          (Some (Errorf ''could not add schedule get group key run timeout task to task queue'' err), w6)
      | (None, w6) \<Rightarrow> (None, w6)))))))"

subsection \<open>The admission engine\<close>

text \<open>
  The two loops of \<open>queueByCancelInProgress\<close>: each starts one function per row and
  leaves at the first index that reaches its bound.
\<close>

fun cancelRunning_loop :: "env \<Rightarrow> uuid \<Rightarrow> int \<Rightarrow> int \<Rightarrow> uuid list \<Rightarrow> (world \<Rightarrow> error option \<times> world) list" where
  "cancelRunning_loop env tenantId i lenQueued [] = []"
| "cancelRunning_loop env tenantId i lenQueued (row # rows) =
     (if i \<ge> lenQueued then []
      else cancelWorkflowRun env tenantId row # cancelRunning_loop env tenantId (i + 1) lenQueued rows)"

fun releaseQueued_loop :: "env \<Rightarrow> uuid \<Rightarrow> int \<Rightarrow> int \<Rightarrow> uuid list \<Rightarrow> (world \<Rightarrow> error option \<times> world) list" where
  "releaseQueued_loop env tenantId i maxToQueue [] = []"
| "releaseQueued_loop env tenantId i maxToQueue (row # rows) =
     (if i \<ge> maxToQueue then []
      else releaseWorkflowRun env tenantId row # releaseQueued_loop env tenantId (i + 1) maxToQueue rows)"

definition runningOpts :: "workflow_concurrency \<Rightarrow> string \<Rightarrow> list_workflow_runs_opts" where
  "runningOpts concurrency groupKey =
     \<lparr>lw_WorkflowVersionId = Some (wc_WorkflowVersionID concurrency), lw_GroupKey = Some groupKey,
      lw_Status = Some WorkflowRunStatusRunning, lw_OrderBy = Some ''createdAt'',
      lw_OrderDirection = Some ''ASC'', lw_Limit = None\<rparr>"

definition queuedOpts :: "workflow_concurrency \<Rightarrow> string \<Rightarrow> list_workflow_runs_opts" where
  "queuedOpts concurrency groupKey =
     \<lparr>lw_WorkflowVersionId = Some (wc_WorkflowVersionID concurrency), lw_GroupKey = Some groupKey,
      lw_Status = Some WorkflowRunStatusQueued, lw_OrderBy = Some ''createdAt'',
      lw_OrderDirection = Some ''ASC'', lw_Limit = Some (wc_MaxRuns concurrency)\<rparr>"

definition queueByCancelInProgress ::
  "env \<Rightarrow> uuid \<Rightarrow> string \<Rightarrow> workflow_version \<Rightarrow> world \<Rightarrow> error option \<times> world" where
  "queueByCancelInProgress env tenantId groupKey workflowVersion w =
     (case wv_Concurrency workflowVersion of
        None \<Rightarrow> (None, w)
      | Some concurrency \<Rightarrow>
      (case ListWorkflowRuns env tenantId (runningOpts concurrency groupKey) w of
        (Inl err, w1) \<Rightarrow> (Some (Errorf ''could not list running workflow runs'' err), w1)
      | (Inr runningWorkflowRuns, w1) \<Rightarrow>
      (case ListWorkflowRuns env tenantId (queuedOpts concurrency groupKey) w1 of
        (Inl err, w2) \<Rightarrow> (Some (Errorf ''could not list queued workflow runs'' err), w2)
      | (Inr queuedWorkflowRuns, w2) \<Rightarrow>
      (let maxRuns = wc_MaxRuns concurrency;
           maxToQueue = min maxRuns (int (length queuedWorkflowRuns))
       in
       case errgroup_Wait
              (cancelRunning_loop env tenantId 0 (int (length queuedWorkflowRuns)) runningWorkflowRuns) w2 of
         (Some err, w3) \<Rightarrow> (Some (Errorf ''could not cancel workflow runs'' err), w3)
       | (None, w3) \<Rightarrow>
       (case errgroup_Wait (releaseQueued_loop env tenantId 0 maxToQueue queuedWorkflowRuns) w3 of
         (Some err, w4) \<Rightarrow> (Some (Errorf ''could not queue workflow runs'' err), w4)
       | (None, w4) \<Rightarrow> (None, w4))))))"

definition queueByGroupRoundRobin :: "env \<Rightarrow> uuid \<Rightarrow> workflow_version \<Rightarrow> world \<Rightarrow> error option \<times> world" where
  "queueByGroupRoundRobin env tenantId workflowVersion w =
     (case wv_Concurrency workflowVersion of
        None \<Rightarrow> (None, w)
      | Some concurrency \<Rightarrow>
      (case PopWorkflowRunsRoundRobin env tenantId (wc_WorkflowVersionID concurrency) (wc_MaxRuns concurrency) w of
        (Inl err, w1) \<Rightarrow> (Some (Errorf ''could not list queued workflow runs'' err), w1)
      | (Inr poppedWorkflowRuns, w1) \<Rightarrow>
      (case errgroup_Wait (map (releaseWorkflowRun env tenantId) poppedWorkflowRuns) w1 of
        (Some err, w2) \<Rightarrow> (Some (Errorf ''could not queue workflow runs'' err), w2)
      | (None, w2) \<Rightarrow> (None, w2))))"

subsection \<open>Handlers\<close>

text \<open>
  \<open>DecodeAndValidate\<close> fills the handler's typed struct from the map and validates it:
  it succeeds when the map is that struct's and the validator accepts it.
\<close>

definition decodeTenantMetadata :: "env \<Rightarrow> metadata \<Rightarrow> error + uuid" where
  "decodeTenantMetadata env m =
     (case m of
        TenantMetadata tenantId \<Rightarrow>
          if validMetadata env m then Inr tenantId else Inl (ErrExternal ''validation failed'')
      | _ \<Rightarrow> Inl (ErrExternal ''decode failed''))"

definition decodeWorkflowRunQueued :: "env \<Rightarrow> payload \<Rightarrow> error + uuid" where
  "decodeWorkflowRunQueued env p =
     (case p of
        WorkflowRunQueuedTaskPayload workflowRunId \<Rightarrow>
          if validPayload env p then Inr workflowRunId else Inl (ErrExternal ''validation failed'')
      | _ \<Rightarrow> Inl (ErrExternal ''decode failed''))"

definition decodeWorkflowRunFinished :: "env \<Rightarrow> payload \<Rightarrow> error + uuid" where
  "decodeWorkflowRunFinished env p =
     (case p of
        WorkflowRunFinishedTask workflowRunId \<Rightarrow>
          if validPayload env p then Inr workflowRunId else Inl (ErrExternal ''validation failed'')
      | _ \<Rightarrow> Inl (ErrExternal ''decode failed''))"

definition decodeGroupKeyRunStarted :: "env \<Rightarrow> payload \<Rightarrow> error + (uuid \<times> string)" where
  "decodeGroupKeyRunStarted env p =
     (case p of
        GetGroupKeyRunStartedTaskPayload getGroupKeyRunId startedAt \<Rightarrow>
          if validPayload env p then Inr (getGroupKeyRunId, startedAt) else Inl (ErrExternal ''validation failed'')
      | _ \<Rightarrow> Inl (ErrExternal ''decode failed''))"

definition decodeGroupKeyRunFinished :: "env \<Rightarrow> payload \<Rightarrow> error + (uuid \<times> string \<times> string)" where
  "decodeGroupKeyRunFinished env p =
     (case p of
        GetGroupKeyRunFinishedTaskPayload getGroupKeyRunId finishedAt groupKey \<Rightarrow>
          if validPayload env p then Inr (getGroupKeyRunId, finishedAt, groupKey)
          else Inl (ErrExternal ''validation failed'')
      | _ \<Rightarrow> Inl (ErrExternal ''decode failed''))"

definition decodeGroupKeyRunFailed :: "env \<Rightarrow> payload \<Rightarrow> error + (uuid \<times> string \<times> string)" where
  "decodeGroupKeyRunFailed env p =
     (case p of
        GetGroupKeyRunFailedTaskPayload getGroupKeyRunId failedAt err \<Rightarrow>
          if validPayload env p then Inr (getGroupKeyRunId, failedAt, err)
          else Inl (ErrExternal ''validation failed'')
      | _ \<Rightarrow> Inl (ErrExternal ''decode failed''))"

definition handleWorkflowRunQueued :: "env \<Rightarrow> message \<Rightarrow> world \<Rightarrow> error option \<times> world" where
  "handleWorkflowRunQueued env task w =
     (case decodeWorkflowRunQueued env (msg_Payload task) of
        Inl err \<Rightarrow> (Some (Errorf ''could not decode job task payload'' err), w)
      | Inr workflowRunId \<Rightarrow>
      (case decodeTenantMetadata env (msg_Metadata task) of
        Inl err \<Rightarrow> (Some (Errorf ''could not decode job task metadata'' err), w)
      | Inr tenantId \<Rightarrow>
      (case GetWorkflowRunById env tenantId workflowRunId w of
        (Inl err, w1) \<Rightarrow> (Some (Errorf ''could not get job run'' err), w1)
      | (Inr workflowRun, w1) \<Rightarrow>
      (case wv_Concurrency (wr_WorkflowVersion workflowRun) of
        Some concurrency \<Rightarrow>
          (case wr_GetGroupKeyRun workflowRun of
             None \<Rightarrow> (Some (ErrorNew ''could not get group key run''), w1)
           | Some groupKeyRunId \<Rightarrow>
           (case GetGroupKeyRunForEngine tenantId groupKeyRunId w1 of
             (Inl err, w2) \<Rightarrow> (Some (Errorf ''could not get group key run for engine'' err), w2)
           | (Inr sqlcGroupKeyRun, w2) \<Rightarrow>
           (case scheduleGetGroupAction env sqlcGroupKeyRun w2 of
             (Some err, w3) \<Rightarrow> (Some (Errorf ''could not trigger get group action'' err), w3)
           | (None, w3) \<Rightarrow> (None, w3))))
      | None \<Rightarrow>
          (case queueWorkflowRunJobs env workflowRun w1 of
             (Some err, w2) \<Rightarrow> (Some (Errorf ''could not start workflow run'' err), w2)
           | (None, w2) \<Rightarrow> (None, w2))))))"

definition handleWorkflowRunFinished :: "env \<Rightarrow> message \<Rightarrow> world \<Rightarrow> error option \<times> world" where
  "handleWorkflowRunFinished env task w =
     (case decodeWorkflowRunFinished env (msg_Payload task) of
        Inl err \<Rightarrow> (Some (Errorf ''could not decode job task payload'' err), w)
      | Inr workflowRunId \<Rightarrow>
      (case decodeTenantMetadata env (msg_Metadata task) of
        Inl err \<Rightarrow> (Some (Errorf ''could not decode job task metadata'' err), w)
      | Inr tenantId \<Rightarrow>
      (case GetWorkflowRunById env tenantId workflowRunId w of
        (Inl err, w1) \<Rightarrow> (Some (Errorf ''could not get job run'' err), w1)
      | (Inr workflowRun, w1) \<Rightarrow>
      (case wv_Concurrency (wr_WorkflowVersion workflowRun) of
        Some concurrency \<Rightarrow>
          (case wc_LimitStrategy concurrency of
             ConcurrencyLimitStrategyGroupRoundRobin \<Rightarrow>
               (case queueByGroupRoundRobin env tenantId (wr_WorkflowVersion workflowRun) w1 of
                  (Some err, w2) \<Rightarrow> (Some (Errorf ''could not queue workflow runs'' err), w2)
                | (None, w2) \<Rightarrow> (None, w2))
           | _ \<Rightarrow> (None, w1))
      | None \<Rightarrow> (None, w1)))))"

definition handleGroupKeyRunStarted :: "env \<Rightarrow> message \<Rightarrow> world \<Rightarrow> error option \<times> world" where
  "handleGroupKeyRunStarted env task w =
     (case decodeGroupKeyRunStarted env (msg_Payload task) of
        Inl err \<Rightarrow> (Some (Errorf ''could not decode group key run started task payload'' err), w)
      | Inr (getGroupKeyRunId, startedAtStr) \<Rightarrow>
      (case decodeTenantMetadata env (msg_Metadata task) of
        Inl err \<Rightarrow> (Some (Errorf ''could not decode group key run started task metadata'' err), w)
      | Inr tenantId \<Rightarrow>
      (case parseRFC3339 env startedAtStr of
        None \<Rightarrow> (Some (Errorf ''could not parse started at'' (ErrExternal ''parsing time'')), w)
      | Some startedAt \<Rightarrow>
      (case UpdateGetGroupKeyRun tenantId getGroupKeyRunId
              (no_update\<lparr>uo_StartedAt := Some startedAt, uo_Status := Some StepRunStatusRunning\<rparr>) w of
        (Inl err, w1) \<Rightarrow> (Some err, w1)
      | (Inr updated, w1) \<Rightarrow> (None, w1)))))"

text \<open>
  The first function \<open>handleGroupKeyRunFinished\<close> starts.  It takes the policy with
  \<open>concurrency, _ := workflowVersion.Concurrency()\<close> and reads \<open>concurrency.LimitStrategy\<close>
  without looking at the flag; with no policy the pointer is nil and the read panics.
\<close>

definition admitByLimitStrategy ::
  "env \<Rightarrow> uuid \<Rightarrow> string \<Rightarrow> get_group_key_run \<Rightarrow> world \<Rightarrow> error option \<times> world" where
  "admitByLimitStrategy env tenantId groupKey groupKeyRun w =
     (case GetWorkflowVersionById env tenantId (gk_WorkflowVersionId groupKeyRun) w of
        (Inl err, w1) \<Rightarrow> (Some (Errorf ''could not get workflow version'' err), w1)
      | (Inr workflowVersion, w1) \<Rightarrow>
      (case wv_Concurrency workflowVersion of
        None \<Rightarrow> (Some (Panic ''invalid memory address or nil pointer dereference''), w1)
      | Some concurrency \<Rightarrow>
          (case wc_LimitStrategy concurrency of
             ConcurrencyLimitStrategyCancelInProgress \<Rightarrow>
               queueByCancelInProgress env tenantId groupKey workflowVersion w1
           | ConcurrencyLimitStrategyGroupRoundRobin \<Rightarrow>
               queueByGroupRoundRobin env tenantId workflowVersion w1
           | OtherLimitStrategy s \<Rightarrow>
               (Some (ErrorNew (''unimplemented concurrency limit strategy: '' @ s)), w1))))"

definition cancelTimeout :: "env \<Rightarrow> get_group_key_run \<Rightarrow> world \<Rightarrow> error option \<times> world" where
  "cancelTimeout env groupKeyRun w =
     (case AddMessage env (QueueTypeFromTickerID (gk_TickerId groupKeyRun))
             (cancelGetGroupKeyRunTimeoutTask groupKeyRun) w of
        (Some err, w1) \<Rightarrow> (Some (Errorf ''could not add cancel group key run timeout task to task queue'' err), w1)
      | (None, w1) \<Rightarrow> (None, w1))"

definition handleGroupKeyRunFinished :: "env \<Rightarrow> message \<Rightarrow> world \<Rightarrow> error option \<times> world" where
  "handleGroupKeyRunFinished env task w =
     (case decodeGroupKeyRunFinished env (msg_Payload task) of
        Inl err \<Rightarrow> (Some (Errorf ''could not decode group key run finished task payload'' err), w)
      | Inr (getGroupKeyRunId, finishedAtStr, groupKey) \<Rightarrow>
      (case decodeTenantMetadata env (msg_Metadata task) of
        Inl err \<Rightarrow> (Some (Errorf ''could not decode group key run finished task metadata'' err), w)
      | Inr tenantId \<Rightarrow>
      (case parseRFC3339 env finishedAtStr of
        None \<Rightarrow> (Some (Errorf ''could not parse started at'' (ErrExternal ''parsing time'')), w)
      | Some finishedAt \<Rightarrow>
      (case UpdateGetGroupKeyRun tenantId getGroupKeyRunId
              (no_update\<lparr>uo_FinishedAt := Some finishedAt, uo_Status := Some StepRunStatusSucceeded,
                 uo_Output := Some groupKey\<rparr>) w of
        (Inl err, w1) \<Rightarrow> (Some (Errorf ''could not update group key run'' err), w1)
      | (Inr groupKeyRun, w1) \<Rightarrow>
          errgroup_Wait
            [admitByLimitStrategy env tenantId groupKey groupKeyRun, cancelTimeout env groupKeyRun] w1))))"

definition handleGroupKeyRunFailed :: "env \<Rightarrow> message \<Rightarrow> world \<Rightarrow> error option \<times> world" where
  "handleGroupKeyRunFailed env task w =
     (case decodeGroupKeyRunFailed env (msg_Payload task) of
        Inl err \<Rightarrow> (Some (Errorf ''could not decode group key run failed task payload'' err), w)
      | Inr (getGroupKeyRunId, failedAtStr, errText) \<Rightarrow>
      (case decodeTenantMetadata env (msg_Metadata task) of
        Inl err \<Rightarrow> (Some (Errorf ''could not decode group key run failed task metadata'' err), w)
      | Inr tenantId \<Rightarrow>
      (case parseRFC3339 env failedAtStr of
        None \<Rightarrow> (Some (Errorf ''could not parse started at'' (ErrExternal ''parsing time'')), w)
      | Some failedAt \<Rightarrow>
      (case UpdateGetGroupKeyRun tenantId getGroupKeyRunId
              (no_update\<lparr>uo_FinishedAt := Some failedAt, uo_Error := Some errText,
                 uo_Status := Some StepRunStatusFailed\<rparr>) w of
        (Inl err, w1) \<Rightarrow> (Some (Errorf ''could not update get group key run'' err), w1)
      | (Inr groupKeyRun, w1) \<Rightarrow> cancelTimeout env groupKeyRun w1))))"

definition handleTask :: "env \<Rightarrow> message \<Rightarrow> world \<Rightarrow> error option \<times> world" where
  "handleTask env task w =
     (if msg_ID task = ''workflow-run-queued'' then handleWorkflowRunQueued env task w
      else if msg_ID task = ''get-group-key-run-started'' then handleGroupKeyRunStarted env task w
      else if msg_ID task = ''get-group-key-run-finished'' then handleGroupKeyRunFinished env task w
      else if msg_ID task = ''get-group-key-run-failed'' then handleGroupKeyRunFailed env task w
      else if msg_ID task = ''workflow-run-finished'' then handleWorkflowRunFinished env task w
      else (Some (ErrorNew (''unknown task: '' @ msg_ID task)), w))"

subsection \<open>The reconciler\<close>

text \<open>The function \<open>runGetGroupKeyRunRequeueTenant\<close> starts for each run of the scan.\<close>

definition requeueGetGroupKeyRun :: "env \<Rightarrow> uuid \<Rightarrow> get_group_key_run \<Rightarrow> world \<Rightarrow> error option \<times> world" where
  "requeueGetGroupKeyRun env tenantId getGroupKeyRunCp w =
     (let getGroupKeyRunId = gk_ID getGroupKeyRunCp in
      case Now env w of (now, w1) \<Rightarrow>
      (let scheduleTimeoutAt = gk_ScheduleTimeoutAt getGroupKeyRunCp;
           isTimedOut = (\<not> IsZero scheduleTimeoutAt \<and> Before scheduleTimeoutAt now)
       in
       if isTimedOut then
         (case UpdateGetGroupKeyRun tenantId getGroupKeyRunId
                 (no_update\<lparr>uo_CancelledAt := Some now, uo_CancelledReason := Some ''SCHEDULING_TIMED_OUT'',
                    uo_Status := Some StepRunStatusCancelled\<rparr>) w1 of
            (Inl err, w2) \<Rightarrow> (Some (Errorf (''could not update get group key run '' @ getGroupKeyRunId) err), w2)
          | (Inr innerGetGroupKeyRun, w2) \<Rightarrow> (None, w2))
       else
         (case Now env w1 of (now2, w2) \<Rightarrow>
          (let requeueAfter = now2 + Second * 5 in
           case UpdateGetGroupKeyRun tenantId getGroupKeyRunId
                  (no_update\<lparr>uo_RequeueAfter := Some requeueAfter\<rparr>) w2 of
             (Inl err, w3) \<Rightarrow> (Some (Errorf (''could not update get group key run '' @ getGroupKeyRunId) err), w3)
           | (Inr innerGetGroupKeyRun, w3) \<Rightarrow> scheduleGetGroupAction env innerGetGroupKeyRun w3))))"

definition runGetGroupKeyRunRequeueTenant :: "env \<Rightarrow> uuid \<Rightarrow> world \<Rightarrow> error option \<times> world" where
  "runGetGroupKeyRunRequeueTenant env tenantId w =
     (case ListGetGroupKeyRunsToRequeue env tenantId w of
        (Inl err, w1) \<Rightarrow> (Some (Errorf ''could not list group key runs'' err), w1)
      | (Inr getGroupKeyRuns, w1) \<Rightarrow>
          errgroup_Wait (map (requeueGetGroupKeyRun env tenantId) getGroupKeyRuns) w1)"

text \<open>The periodic job: an error of a tenant is logged, the job itself returns nothing.\<close>

definition runGetGroupKeyRunRequeue :: "env \<Rightarrow> world \<Rightarrow> world" where
  "runGetGroupKeyRunRequeue env w =
     (case ListTenants env w of
        (Inl err, w1) \<Rightarrow> w1
      | (Inr tenants, w1) \<Rightarrow> snd (errgroup_Wait (map (runGetGroupKeyRunRequeueTenant env) tenants) w1))"

definition reassignGetGroupKeyRun :: "env \<Rightarrow> uuid \<Rightarrow> get_group_key_run \<Rightarrow> world \<Rightarrow> error option \<times> world" where
  "reassignGetGroupKeyRun env tenantId getGroupKeyRunCp w =
     (let getGroupKeyRunId = gk_ID getGroupKeyRunCp in
      case Now env w of (now, w1) \<Rightarrow>
      (let requeueAfter = now + Second * 5 in
       case UpdateGetGroupKeyRun tenantId getGroupKeyRunId
              (no_update\<lparr>uo_RequeueAfter := Some requeueAfter,
                 uo_Status := Some StepRunStatusPendingAssignment\<rparr>) w1 of
         (Inl err, w2) \<Rightarrow> (Some (Errorf (''could not update get group key run '' @ getGroupKeyRunId) err), w2)
       | (Inr innerGetGroupKeyRun, w2) \<Rightarrow> scheduleGetGroupAction env innerGetGroupKeyRun w2))"

definition runGetGroupKeyRunReassignTenant :: "env \<Rightarrow> uuid \<Rightarrow> world \<Rightarrow> error option \<times> world" where
  "runGetGroupKeyRunReassignTenant env tenantId w =
     (case ListGetGroupKeyRunsToReassign env tenantId w of
        (Inl err, w1) \<Rightarrow> (Some (Errorf ''could not list get group key runs'' err), w1)
      | (Inr getGroupKeyRuns, w1) \<Rightarrow>
          errgroup_Wait (map (reassignGetGroupKeyRun env tenantId) getGroupKeyRuns) w1)"

definition runGetGroupKeyRunReassign :: "env \<Rightarrow> world \<Rightarrow> world" where
  "runGetGroupKeyRunReassign env w =
     (case ListTenants env w of
        (Inl err, w1) \<Rightarrow> w1
      | (Inr tenants, w1) \<Rightarrow> snd (errgroup_Wait (map (runGetGroupKeyRunReassignTenant env) tenants) w1))"

subsection \<open>The supervisor\<close>

text \<open>
  \<open>Start\<close> and the function it returns.  What the scheduler and the queue answer is a
  parameter; the steps taken are recorded in order.  \<open>wg.Wait()\<close> is taken to return,
  that is, every handler in flight ends.
\<close>

datatype lifecycle_step =
    NewJobRequeue
  | NewJobReassign
  | SchedulerStart
  | Subscribe
  | CancelRootContext
  | CleanupQueue
  | WaitGroupWait
  | SchedulerShutdown

record supervisor_env =
  newJobRequeue_err :: "error option"
  newJobReassign_err :: "error option"
  subscribe_err :: "error option"
  cleanupQueue_err :: "error option"
  schedulerShutdown_err :: "error option"

definition cleanup :: "supervisor_env \<Rightarrow> lifecycle_step list \<Rightarrow> error option \<times> lifecycle_step list" where
  "cleanup senv steps =
     (let steps1 = steps @ [CancelRootContext];
          steps2 = steps1 @ [CleanupQueue]
      in
      case cleanupQueue_err senv of
        Some err \<Rightarrow> (Some (Errorf ''could not cleanup queue'' err), steps2)
      | None \<Rightarrow>
          (let steps3 = steps2 @ [WaitGroupWait];
               steps4 = steps3 @ [SchedulerShutdown]
           in
           case schedulerShutdown_err senv of
             Some err \<Rightarrow> (Some (Errorf ''could not shutdown scheduler'' err), steps4)
           | None \<Rightarrow> (None, steps4)))"

definition Start ::
  "supervisor_env \<Rightarrow> lifecycle_step list \<Rightarrow>
     (error + (lifecycle_step list \<Rightarrow> error option \<times> lifecycle_step list)) \<times> lifecycle_step list" where
  "Start senv steps =
     (let steps1 = steps @ [NewJobRequeue] in
      case newJobRequeue_err senv of
        Some err \<Rightarrow>
          (Inl (Errorf ''could not schedule get group key run requeue'' err), steps1 @ [CancelRootContext])
      | None \<Rightarrow>
      (let steps2 = steps1 @ [NewJobReassign] in
       case newJobReassign_err senv of
         Some err \<Rightarrow>
           (Inl (Errorf ''could not schedule get group key run reassign'' err), steps2 @ [CancelRootContext])
       | None \<Rightarrow>
       (let steps3 = steps2 @ [SchedulerStart];
            steps4 = steps3 @ [Subscribe]
        in
        case subscribe_err senv of
          Some err \<Rightarrow> (Inl err, steps4 @ [CancelRootContext])
        | None \<Rightarrow> (Inr (cleanup senv), steps4))))"

section \<open>Observations on a run\<close>

text \<open>What a routine appended to the trace, and projections of a piece of trace.\<close>

definition new_events :: "world \<Rightarrow> world \<Rightarrow> event list" where
  "new_events w w' = drop (length (trace w)) (trace w')"

definition logged :: "event list \<Rightarrow> world \<Rightarrow> world" where
  "logged evs w = w\<lparr>trace := trace w @ evs\<rparr>"

definition sends :: "event list \<Rightarrow> (queue \<times> message) list" where
  "sends evs = concat (map (\<lambda>e. case e of MqAddMessage q m \<Rightarrow> [(q, m)] | _ \<Rightarrow> []) evs)"

definition cancel_calls :: "event list \<Rightarrow> (uuid \<times> uuid) list" where
  "cancel_calls evs = concat (map (\<lambda>e. case e of CallCancelWorkflowRun t i \<Rightarrow> [(t, i)] | _ \<Rightarrow> []) evs)"

definition released_runs :: "event list \<Rightarrow> workflow_run list" where
  "released_runs evs = concat (map (\<lambda>e. case e of CallQueueWorkflowRunJobs r \<Rightarrow> [r] | _ \<Rightarrow> []) evs)"

definition schedule_calls :: "event list \<Rightarrow> get_group_key_run list" where
  "schedule_calls evs = concat (map (\<lambda>e. case e of CallScheduleGetGroupAction g \<Rightarrow> [g] | _ \<Rightarrow> []) evs)"

definition pop_calls :: "event list \<Rightarrow> (uuid \<times> uuid \<times> int) list" where
  "pop_calls evs =
     concat (map (\<lambda>e. case e of RepoPopWorkflowRunsRoundRobin t v n \<Rightarrow> [(t, v, n)] | _ \<Rightarrow> []) evs)"

text \<open>The calls that change what the repository holds.\<close>

fun is_repo_write :: "event \<Rightarrow> bool" where
  "is_repo_write (RepoUpdateGetGroupKeyRun t i opts) = True"
| "is_repo_write (RepoAssignGetGroupKeyRunToWorker t i) = True"
| "is_repo_write (RepoAssignGetGroupKeyRunToTicker t i) = True"
| "is_repo_write (RepoPopWorkflowRunsRoundRobin t v n) = True"
| "is_repo_write e = False"

text \<open>
  The events of one \<open>releaseWorkflowRun\<close> and of one \<open>cancelWorkflowRun\<close>: neither
  depends on whether a send succeeded.
\<close>

definition job_run_events :: "env \<Rightarrow> workflow_run \<Rightarrow> event list" where
  "job_run_events env workflowRun =
     CallQueueWorkflowRunJobs workflowRun #
     map (\<lambda>jobRun. MqAddMessage JOB_PROCESSING_QUEUE (JobRunQueuedToTask env jobRun)) (wr_JobRuns workflowRun)"

definition release_events :: "env \<Rightarrow> uuid \<Rightarrow> uuid \<Rightarrow> event list" where
  "release_events env tenantId workflowRunId =
     RepoGetWorkflowRunById tenantId workflowRunId #
     (case repoGetWorkflowRunById env tenantId workflowRunId of
        Inl err \<Rightarrow> []
      | Inr workflowRun \<Rightarrow> job_run_events env workflowRun)"

definition cancel_events :: "env \<Rightarrow> uuid \<Rightarrow> uuid \<Rightarrow> event list" where
  "cancel_events env tenantId workflowRunId =
     CallCancelWorkflowRun tenantId workflowRunId # RepoGetWorkflowRunById tenantId workflowRunId #
     (case repoGetWorkflowRunById env tenantId workflowRunId of
        Inl err \<Rightarrow> []
      | Inr workflowRun \<Rightarrow>
          RepoListStepRuns tenantId
            \<lparr>ls_WorkflowRunId = Some (wr_ID workflowRun), ls_Status = Some StepRunStatusRunning\<rparr> #
          (case repoListStepRuns env tenantId
                  \<lparr>ls_WorkflowRunId = Some (wr_ID workflowRun), ls_Status = Some StepRunStatusRunning\<rparr> of
             Inl err \<Rightarrow> []
           | Inr stepRuns \<Rightarrow>
               map (\<lambda>stepRun. MqAddMessage JOB_PROCESSING_QUEUE
                      (getStepRunNotifyCancelTask tenantId (sr_ID stepRun) ''CANCELLED_BY_CONCURRENCY_LIMIT''))
                 stepRuns))"


section \<open>A concrete deployment\<close>

text \<open>
  One tenant; a version \<open>versionG\<close> limited to one run per group key with
  CANCEL_IN_PROGRESS, a version \<open>versionRR\<close> limited to two with GROUP_ROUND_ROBIN, and a
  version \<open>versionPlain\<close> with no policy.  Group \<open>G\<close> of \<open>versionG\<close> has the running runs
  \<open>r1\<close> (older) and \<open>r2\<close> and the queued run \<open>q1\<close>; \<open>r1\<close> has two running step runs.
  \<open>versionRR\<close> has the queued runs \<open>a1\<close>, \<open>a2\<close>, \<open>a3\<close> of one group key and \<open>b1\<close>,
  \<open>b2\<close>, \<open>b3\<close> of another.  The repository answers the queries below and no other.
\<close>

definition policyG :: workflow_concurrency where
  "policyG = \<lparr>wc_WorkflowVersionID = ''wv-g'', wc_MaxRuns = 1,
     wc_LimitStrategy = ConcurrencyLimitStrategyCancelInProgress\<rparr>"

definition policyRR :: workflow_concurrency where
  "policyRR = \<lparr>wc_WorkflowVersionID = ''wv-rr'', wc_MaxRuns = 2,
     wc_LimitStrategy = ConcurrencyLimitStrategyGroupRoundRobin\<rparr>"

definition versionG :: workflow_version where
  "versionG = \<lparr>wv_ID = ''wv-g'', wv_Concurrency = Some policyG\<rparr>"

definition versionRR :: workflow_version where
  "versionRR = \<lparr>wv_ID = ''wv-rr'', wv_Concurrency = Some policyRR\<rparr>"

definition versionPlain :: workflow_version where
  "versionPlain = \<lparr>wv_ID = ''wv-plain'', wv_Concurrency = None\<rparr>"

definition mk_run :: "uuid \<Rightarrow> workflow_version \<Rightarrow> uuid list \<Rightarrow> workflow_run" where
  "mk_run i v jobRunIds =
     \<lparr>wr_ID = i, wr_WorkflowVersion = v, wr_GetGroupKeyRun = None,
      wr_JobRuns = map (\<lambda>j. \<lparr>jr_ID = j, jr_Job = ''job-1''\<rparr>) jobRunIds\<rparr>"

definition jobTask :: "job_run \<Rightarrow> message" where
  "jobTask jobRun =
     \<lparr>msg_ID = ''job-run-queued'', msg_Payload = OpaquePayload (jr_ID jobRun),
      msg_Metadata = TenantMetadata ''tenant-1'', msg_Retries = 3\<rparr>"

definition runs0 :: "uuid \<Rightarrow> uuid \<Rightarrow> error + workflow_run" where
  "runs0 tenantId i =
     (if tenantId \<noteq> ''tenant-1'' then Inl (ErrExternal ''NotFound'')
      else if i = ''r1'' then Inr (mk_run ''r1'' versionG [''r1-j1''])
      else if i = ''r2'' then Inr (mk_run ''r2'' versionG [''r2-j1''])
      else if i = ''q1'' then Inr (mk_run ''q1'' versionG [''q1-j1'', ''q1-j2''])
      else if i = ''a1'' then Inr (mk_run ''a1'' versionRR [''a1-j1''])
      else if i = ''b1'' then Inr (mk_run ''b1'' versionRR [''b1-j1''])
      else if i = ''a2'' then Inr (mk_run ''a2'' versionRR [''a2-j1''])
      else if i = ''b2'' then Inr (mk_run ''b2'' versionRR [''b2-j1''])
      else if i = ''u1'' then Inr (mk_run ''u1'' versionRR [''u1-j1''])
      else if i = ''n1'' then Inr (mk_run ''n1'' versionPlain [''n1-j1''])
      else Inl (ErrExternal ''NotFound''))"

definition versions0 :: "uuid \<Rightarrow> uuid \<Rightarrow> error + workflow_version" where
  "versions0 tenantId i =
     (if i = ''wv-g'' then Inr versionG
      else if i = ''wv-rr'' then Inr versionRR
      else if i = ''wv-plain'' then Inr versionPlain
      else Inl (ErrExternal ''NotFound''))"

definition listed0 :: "uuid \<Rightarrow> list_workflow_runs_opts \<Rightarrow> error + uuid list" where
  "listed0 tenantId opts =
     (if tenantId = ''tenant-1'' \<and>
         opts = \<lparr>lw_WorkflowVersionId = Some ''wv-g'', lw_GroupKey = Some ''G'',
                  lw_Status = Some WorkflowRunStatusRunning, lw_OrderBy = Some ''createdAt'',
                  lw_OrderDirection = Some ''ASC'', lw_Limit = None\<rparr>
      then Inr [''r1'', ''r2'']
      else if tenantId = ''tenant-1'' \<and>
         opts = \<lparr>lw_WorkflowVersionId = Some ''wv-g'', lw_GroupKey = Some ''G'',
                  lw_Status = Some WorkflowRunStatusQueued, lw_OrderBy = Some ''createdAt'',
                  lw_OrderDirection = Some ''ASC'', lw_Limit = Some 1\<rparr>
      then Inr [''q1'']
      else Inl (ErrExternal ''unexpected query''))"

definition stepRuns0 :: "uuid \<Rightarrow> list_step_runs_opts \<Rightarrow> error + step_run list" where
  "stepRuns0 tenantId opts =
     (if tenantId = ''tenant-1'' \<and>
         opts = \<lparr>ls_WorkflowRunId = Some ''r1'', ls_Status = Some StepRunStatusRunning\<rparr>
      then Inr [\<lparr>sr_ID = ''s1''\<rparr>, \<lparr>sr_ID = ''s2''\<rparr>]
      else if tenantId = ''tenant-1'' \<and> ls_Status opts = Some StepRunStatusRunning then Inr []
      else Inl (ErrExternal ''unexpected query''))"

definition popped0 :: "uuid list \<Rightarrow> uuid \<Rightarrow> uuid \<Rightarrow> int \<Rightarrow> error + uuid list" where
  "popped0 poppedSoFar tenantId workflowVersionId maxRuns =
     (if tenantId = ''tenant-1'' \<and> workflowVersionId = ''wv-rr''
      then Inr (take (nat maxRuns)
                  (filter (\<lambda>i. i \<notin> set poppedSoFar) [''a1'', ''b1'', ''a2'', ''b2'', ''a3'', ''b3'']))
      else Inl (ErrExternal ''unexpected query''))"

definition mk_gkr :: "uuid \<Rightarrow> uuid \<Rightarrow> uuid \<Rightarrow> step_run_status \<Rightarrow> time \<Rightarrow> get_group_key_run" where
  "mk_gkr i workflowRunId workflowVersionId status scheduleTimeoutAt =
     \<lparr>gk_ID = i, gk_TenantId = ''tenant-1'', gk_WorkflowRunId = workflowRunId,
      gk_WorkflowVersionId = workflowVersionId, gk_WorkerId = '''', gk_DispatcherId = '''',
      gk_TickerId = ''ticker-0'', gk_Status = status, gk_StartedAt = None, gk_FinishedAt = None,
      gk_Output = None, gk_Error = None, gk_CancelledAt = None, gk_CancelledReason = None,
      gk_RequeueAfter = None, gk_ScheduleTimeoutAt = scheduleTimeoutAt\<rparr>"

text \<open>
  Group-key runs: \<open>gk-q1\<close> waits for a worker with no schedule timeout, \<open>gk-late\<close> is
  past its schedule timeout (the requeue scan returns these two), \<open>gk-plain\<close> belongs to
  the version with no policy, \<open>gk-done\<close> is cancelled, \<open>gk-rr\<close> runs for the version with
  GROUP_ROUND_ROBIN.
\<close>

definition gkQ1 :: get_group_key_run where
  "gkQ1 = mk_gkr ''gk-q1'' ''q1'' ''wv-g'' StepRunStatusPendingAssignment 0"

definition gkLate :: get_group_key_run where
  "gkLate = mk_gkr ''gk-late'' ''q1'' ''wv-g'' StepRunStatusPendingAssignment 999"

definition gkPlain :: get_group_key_run where
  "gkPlain = mk_gkr ''gk-plain'' ''n1'' ''wv-plain'' StepRunStatusRunning 0"

definition gkDone :: get_group_key_run where
  "gkDone = mk_gkr ''gk-done'' ''r2'' ''wv-g'' StepRunStatusCancelled 0"

definition gkRR :: get_group_key_run where
  "gkRR = mk_gkr ''gk-rr'' ''a3'' ''wv-rr'' StepRunStatusRunning 0"

definition env0 :: env where
  "env0 =
     \<lparr>clock = (\<lambda>n. 1000 + int n),
      parseRFC3339 = (\<lambda>s. if s = ''1970-01-01T00:00:01Z'' then Some 900 else None),
      formatRFC3339 = (\<lambda>t. ''1970-01-01T00:01:00Z''),
      DefaultStepRunTimeout = ''60s'',
      ParseDuration = (\<lambda>s. if s = ''60s'' then Some (60 * Second) else None),
      validPayload = (\<lambda>p. True),
      validMetadata = (\<lambda>m. True),
      JobRunQueuedToTask = jobTask,
      mqAddMessage = (\<lambda>n q m. None),
      repoGetWorkflowRunById = runs0,
      repoGetWorkflowVersionById = versions0,
      repoListWorkflowRuns = listed0,
      repoPopWorkflowRunsRoundRobin = popped0,
      repoListStepRuns = stepRuns0,
      repoAssignGetGroupKeyRunToWorker = (\<lambda>tenantId i. Inr (''worker-1'', ''dispatcher-1'')),
      repoAssignGetGroupKeyRunToTicker = (\<lambda>tenantId i. Inr ''ticker-1''),
      repoListGetGroupKeyRunsToRequeue =
        (\<lambda>tenantId. if tenantId = ''tenant-1'' then Inr [gkLate, gkQ1] else Inr []),
      repoListGetGroupKeyRunsToReassign = (\<lambda>tenantId. Inr []),
      repoListTenants = Inr [''tenant-1'']\<rparr>"

text \<open>The same deployment with a queue that refuses every message.\<close>

definition envQueueDown :: env where
  "envQueueDown = env0\<lparr>mqAddMessage := (\<lambda>n q m. Some (ErrExternal ''queue down''))\<rparr>"

text \<open>The same deployment with no worker to take a group-key action.\<close>

definition envNoWorker :: env where
  "envNoWorker = env0\<lparr>repoAssignGetGroupKeyRunToWorker :=
     (\<lambda>tenantId i. Inl (Errorf ''could not assign worker'' ErrNoWorkerAvailable))\<rparr>"

definition world0 :: world where
  "world0 = \<lparr>gkrs = [''gk-q1'' \<mapsto> gkQ1, ''gk-late'' \<mapsto> gkLate, ''gk-plain'' \<mapsto> gkPlain,
                     ''gk-done'' \<mapsto> gkDone, ''gk-rr'' \<mapsto> gkRR],
             poppedRuns = [], trace = [], ticks = 0\<rparr>"

text \<open>Messages delivered to the controller.\<close>

definition mk_task :: "string \<Rightarrow> payload \<Rightarrow> message" where
  "mk_task i p = \<lparr>msg_ID = i, msg_Payload = p, msg_Metadata = TenantMetadata ''tenant-1'', msg_Retries = 3\<rparr>"


definition finishedPlain :: message where
  "finishedPlain = mk_task ''get-group-key-run-finished''
     (GetGroupKeyRunFinishedTaskPayload ''gk-plain'' ''1970-01-01T00:00:01Z'' ''G'')"



definition runFinishedU1 :: message where
  "runFinishedU1 = mk_task ''workflow-run-finished'' (WorkflowRunFinishedTask ''u1'')"

definition runFinishedR1 :: message where
  "runFinishedR1 = mk_task ''workflow-run-finished'' (WorkflowRunFinishedTask ''r1'')"

text \<open>A supervisor whose queue refuses to unsubscribe, and one whose scheduler refuses to stop.\<close>

definition senvUnsubscribeFails :: supervisor_env where
  "senvUnsubscribeFails =
     \<lparr>newJobRequeue_err = None, newJobReassign_err = None, subscribe_err = None,
      cleanupQueue_err = Some (ErrExternal ''channel closed''), schedulerShutdown_err = None\<rparr>"

definition senvShutdownFails :: supervisor_env where
  "senvShutdownFails =
     \<lparr>newJobRequeue_err = None, newJobReassign_err = None, subscribe_err = None,
      cleanupQueue_err = None, schedulerShutdown_err = Some (ErrExternal ''scheduler busy'')\<rparr>"

section \<open>Frames and traces of the building blocks\<close>

subsection \<open>Traces and their projections\<close>

lemma logged_logged [simp]: "logged b (logged a w) = logged (a @ b) w"
  by (simp add: logged_def)

lemma logged_Nil [simp]: "logged [] w = w"
  by (simp add: logged_def)

lemma emit_logged: "emit e w = logged [e] w"
  by (simp add: emit_def logged_def)

lemma trace_logged [simp]: "trace (logged evs w) = trace w @ evs"
  by (simp add: logged_def)

lemma gkrs_logged [simp]: "gkrs (logged evs w) = gkrs w"
  by (simp add: logged_def)

lemma ticks_logged [simp]: "ticks (logged evs w) = ticks w"
  by (simp add: logged_def)

lemma poppedRuns_logged [simp]: "poppedRuns (logged evs w) = poppedRuns w"
  by (simp add: logged_def)

lemma new_events_logged [simp]: "new_events w (logged evs w) = evs"
  by (simp add: new_events_def)

lemma new_events_logged_popped [simp]: "new_events w (logged evs (w\<lparr>poppedRuns := p\<rparr>)) = evs"
  by (simp add: new_events_def)

lemma logged_poppedRuns_update:
  "(logged evs w)\<lparr>poppedRuns := p\<rparr> = logged evs (w\<lparr>poppedRuns := p\<rparr>)"
  by (cases w) (simp add: logged_def)


lemma sends_append [simp]: "sends (xs @ ys) = sends xs @ sends ys"
  by (simp add: sends_def)

lemma sends_Nil [simp]: "sends [] = []"
  by (simp add: sends_def)

lemma sends_Cons [simp]:
  "sends (e # evs) = (case e of MqAddMessage q m \<Rightarrow> [(q, m)] | _ \<Rightarrow> []) @ sends evs"
  by (simp add: sends_def)

lemma cancel_calls_Nil [simp]: "cancel_calls [] = []"
  by (simp add: cancel_calls_def)

lemma cancel_calls_Cons [simp]:
  "cancel_calls (e # evs) = (case e of CallCancelWorkflowRun t i \<Rightarrow> [(t, i)] | _ \<Rightarrow> []) @ cancel_calls evs"
  by (simp add: cancel_calls_def)

lemma released_runs_Nil [simp]: "released_runs [] = []"
  by (simp add: released_runs_def)

lemma released_runs_Cons [simp]:
  "released_runs (e # evs) = (case e of CallQueueWorkflowRunJobs r \<Rightarrow> [r] | _ \<Rightarrow> []) @ released_runs evs"
  by (simp add: released_runs_def)

lemma pop_calls_Nil [simp]: "pop_calls [] = []"
  by (simp add: pop_calls_def)

lemma pop_calls_Cons [simp]:
  "pop_calls (e # evs) =
     (case e of RepoPopWorkflowRunsRoundRobin t v n \<Rightarrow> [(t, v, n)] | _ \<Rightarrow> []) @ pop_calls evs"
  by (simp add: pop_calls_def)

lemma schedule_calls_Nil [simp]: "schedule_calls [] = []"
  by (simp add: schedule_calls_def)

lemma schedule_calls_Cons [simp]:
  "schedule_calls (e # evs) =
     (case e of CallScheduleGetGroupAction g \<Rightarrow> [g] | _ \<Rightarrow> []) @ schedule_calls evs"
  by (simp add: schedule_calls_def)

lemma schedule_calls_append [simp]: "schedule_calls (xs @ ys) = schedule_calls xs @ schedule_calls ys"
  by (simp add: schedule_calls_def)

lemma sends_map_MqAddMessage [simp]:
  "sends (map (\<lambda>x. MqAddMessage q (f x)) xs) = map (\<lambda>x. (q, f x)) xs"
  by (induction xs) simp_all

lemma cancel_calls_map_MqAddMessage [simp]: "cancel_calls (map (\<lambda>x. MqAddMessage q (f x)) xs) = []"
  by (induction xs) simp_all

lemma released_runs_map_MqAddMessage [simp]: "released_runs (map (\<lambda>x. MqAddMessage q (f x)) xs) = []"
  by (induction xs) simp_all

lemma pop_calls_map_MqAddMessage [simp]: "pop_calls (map (\<lambda>x. MqAddMessage q (f x)) xs) = []"
  by (induction xs) simp_all

lemma repo_writes_map_MqAddMessage [simp]:
  "filter is_repo_write (map (\<lambda>x. MqAddMessage q (f x)) xs) = []"
  by (induction xs) simp_all

lemma cancel_calls_append [simp]: "cancel_calls (xs @ ys) = cancel_calls xs @ cancel_calls ys"
  by (simp add: cancel_calls_def)

lemma released_runs_append [simp]: "released_runs (xs @ ys) = released_runs xs @ released_runs ys"
  by (simp add: released_runs_def)

lemma pop_calls_append [simp]: "pop_calls (xs @ ys) = pop_calls xs @ pop_calls ys"
  by (simp add: pop_calls_def)

subsection \<open>What each routine appends\<close>

lemma snd_AddMessage: "snd (AddMessage env q m w) = logged [MqAddMessage q m] w"
  by (simp add: AddMessage_def emit_logged)

lemma snd_queueWorkflowRunJobs_loop:
  "snd (queueWorkflowRunJobs_loop env jobRuns err w) =
     logged (map (\<lambda>jobRun. MqAddMessage JOB_PROCESSING_QUEUE (JobRunQueuedToTask env jobRun)) jobRuns) w"
proof (induction jobRuns arbitrary: w)
  case Nil
  show ?case by simp
next
  case (Cons jobRun jobRuns)
  obtain e w1 where a: "AddMessage env JOB_PROCESSING_QUEUE (JobRunQueuedToTask env jobRun) w = (e, w1)"
    by (cases "AddMessage env JOB_PROCESSING_QUEUE (JobRunQueuedToTask env jobRun) w")
  have "w1 = logged [MqAddMessage JOB_PROCESSING_QUEUE (JobRunQueuedToTask env jobRun)] w"
    using snd_AddMessage [of env JOB_PROCESSING_QUEUE "JobRunQueuedToTask env jobRun" w] a by simp
  then show ?case using a Cons.IH [of w1] by simp
qed

lemma fst_queueWorkflowRunJobs_loop: "fst (queueWorkflowRunJobs_loop env jobRuns err w) = err"
  by (induction jobRuns arbitrary: w) (auto split: prod.splits)

lemma fst_queueWorkflowRunJobs: "fst (queueWorkflowRunJobs env workflowRun w) = None"
  by (simp add: queueWorkflowRunJobs_def fst_queueWorkflowRunJobs_loop)

lemma snd_queueWorkflowRunJobs:
  "snd (queueWorkflowRunJobs env workflowRun w) = logged (job_run_events env workflowRun) w"
  by (simp add: queueWorkflowRunJobs_def snd_queueWorkflowRunJobs_loop emit_logged job_run_events_def)

lemma snd_releaseWorkflowRun:
  "snd (releaseWorkflowRun env tenantId workflowRunId w) = logged (release_events env tenantId workflowRunId) w"
  by (simp add: releaseWorkflowRun_def GetWorkflowRunById_def release_events_def emit_logged
      snd_queueWorkflowRunJobs split: sum.splits)

lemma fst_releaseWorkflowRun:
  "fst (releaseWorkflowRun env tenantId workflowRunId w) =
     (case repoGetWorkflowRunById env tenantId workflowRunId of
        Inl err \<Rightarrow> Some (Errorf ''could not get workflow run'' err)
      | Inr workflowRun \<Rightarrow> None)"
  by (simp add: releaseWorkflowRun_def GetWorkflowRunById_def fst_queueWorkflowRunJobs split: sum.splits)

lemma snd_errgroup_Wait_map:
  assumes "\<And>x w. snd (g x w) = logged (ev x) w"
  shows "snd (errgroup_Wait (map g xs) w) = logged (concat (map ev xs)) w"
proof (induction xs arbitrary: w)
  case Nil
  show ?case by simp
next
  case (Cons x xs)
  obtain e w1 where a: "g x w = (e, w1)" by (cases "g x w")
  then have w1: "w1 = logged (ev x) w" using assms [of x w] by simp
  obtain es w2 where b: "errgroup_Wait (map g xs) w1 = (es, w2)"
    by (cases "errgroup_Wait (map g xs) w1")
  then have "w2 = logged (concat (map ev xs)) w1" using Cons.IH [of w1] by simp
  then show ?case using a b w1 by simp
qed

lemma fst_errgroup_Wait_None:
  assumes "fst (errgroup_Wait (map g xs) w) = None" and "x \<in> set xs"
  shows "\<exists>w'. fst (g x w') = None"
  using assms
proof (induction xs arbitrary: w)
  case Nil
  then show ?case by simp
next
  case (Cons y ys)
  obtain e w1 where a: "g y w = (e, w1)" by (cases "g y w")
  obtain es w2 where b: "errgroup_Wait (map g ys) w1 = (es, w2)"
    by (cases "errgroup_Wait (map g ys) w1")
  from Cons.prems(1) a b have e: "e = None" and es: "es = None"
    by (auto split: option.splits)
  show ?case
  proof (cases "x = y")
    case True
    then show ?thesis using a e by (intro exI [of _ w]) simp
  next
    case False
    then have "x \<in> set ys" using Cons.prems(2) by simp
    moreover have "fst (errgroup_Wait (map g ys) w1) = None" using b es by simp
    ultimately show ?thesis using Cons.IH by blast
  qed
qed

lemma snd_cancelWorkflowRun:
  "snd (cancelWorkflowRun env tenantId workflowRunId w) = logged (cancel_events env tenantId workflowRunId) w"
proof (cases "repoGetWorkflowRunById env tenantId workflowRunId")
  case (Inl err)
  then show ?thesis
    by (simp add: cancelWorkflowRun_def GetWorkflowRunById_def cancel_events_def emit_logged)
next
  case (Inr workflowRun)
  show ?thesis
  proof (cases "repoListStepRuns env tenantId
      \<lparr>ls_WorkflowRunId = Some (wr_ID workflowRun), ls_Status = Some StepRunStatusRunning\<rparr>")
    case (Inl err)
    then show ?thesis using Inr
      by (simp add: cancelWorkflowRun_def GetWorkflowRunById_def ListStepRuns_def cancel_events_def emit_logged)
  next
    case (Inr stepRuns)
    have "snd (errgroup_Wait
            (map (\<lambda>stepRunCp. AddMessage env JOB_PROCESSING_QUEUE
                    (getStepRunNotifyCancelTask tenantId (sr_ID stepRunCp) ''CANCELLED_BY_CONCURRENCY_LIMIT''))
               stepRuns) w') =
          logged (concat (map (\<lambda>stepRun. [MqAddMessage JOB_PROCESSING_QUEUE
                    (getStepRunNotifyCancelTask tenantId (sr_ID stepRun) ''CANCELLED_BY_CONCURRENCY_LIMIT'')])
               stepRuns)) w'" for w'
      by (rule snd_errgroup_Wait_map) (rule snd_AddMessage)
    moreover have "concat (map (\<lambda>x. [f x]) xs) = map f xs" for f :: "step_run \<Rightarrow> event" and xs
      by (induction xs) simp_all
    ultimately show ?thesis using Inr \<open>repoGetWorkflowRunById env tenantId workflowRunId = Inr workflowRun\<close>
      by (simp add: cancelWorkflowRun_def GetWorkflowRunById_def ListStepRuns_def cancel_events_def emit_logged)
  qed
qed

lemma cancelRunning_loop_eq:
  "cancelRunning_loop env tenantId i n rows = map (cancelWorkflowRun env tenantId) (take (nat (n - i)) rows)"
proof (induction rows arbitrary: i)
  case Nil
  show ?case by simp
next
  case (Cons row rows)
  show ?case
  proof (cases "i \<ge> n")
    case True
    then show ?thesis by simp
  next
    case False
    then have "nat (n - i) = Suc (nat (n - (i + 1)))" by simp
    then show ?thesis using False Cons.IH [of "i + 1"] by simp
  qed
qed

lemma releaseQueued_loop_eq:
  "releaseQueued_loop env tenantId i n rows = map (releaseWorkflowRun env tenantId) (take (nat (n - i)) rows)"
proof (induction rows arbitrary: i)
  case Nil
  show ?case by simp
next
  case (Cons row rows)
  show ?case
  proof (cases "i \<ge> n")
    case True
    then show ?thesis by simp
  next
    case False
    then have "nat (n - i) = Suc (nat (n - (i + 1)))" by simp
    then show ?thesis using False Cons.IH [of "i + 1"] by simp
  qed
qed

subsection \<open>Projections of the events of a cancellation and of a release\<close>

lemma cancel_calls_cancel_events [simp]:
  "cancel_calls (cancel_events env tenantId workflowRunId) = [(tenantId, workflowRunId)]"
  by (simp add: cancel_events_def split: sum.splits)

lemma released_runs_cancel_events [simp]: "released_runs (cancel_events env tenantId workflowRunId) = []"
  by (simp add: cancel_events_def split: sum.splits)

lemma cancel_calls_release_events [simp]: "cancel_calls (release_events env tenantId workflowRunId) = []"
  by (simp add: release_events_def job_run_events_def split: sum.splits)

lemma released_runs_release_events [simp]:
  "released_runs (release_events env tenantId workflowRunId) =
     (case repoGetWorkflowRunById env tenantId workflowRunId of Inl err \<Rightarrow> [] | Inr workflowRun \<Rightarrow> [workflowRun])"
  by (simp add: release_events_def job_run_events_def split: sum.splits)

lemma cancel_calls_concat_cancel_events [simp]:
  "cancel_calls (concat (map (cancel_events env tenantId) ids)) = map (Pair tenantId) ids"
  by (induction ids) simp_all

lemma cancel_calls_concat_release_events [simp]:
  "cancel_calls (concat (map (release_events env tenantId) ids)) = []"
  by (induction ids) simp_all

lemma released_runs_concat_cancel_events [simp]:
  "released_runs (concat (map (cancel_events env tenantId) ids)) = []"
  by (induction ids) simp_all

lemma released_runs_concat_release_events:
  assumes "\<And>i. i \<in> set ids \<Longrightarrow> \<exists>r. repoGetWorkflowRunById env tenantId i = Inr r"
  shows "map Inr (released_runs (concat (map (release_events env tenantId) ids))) =
         map (repoGetWorkflowRunById env tenantId) ids"
  using assms
proof (induction ids)
  case Nil
  show ?case by simp
next
  case (Cons i ids)
  obtain r where "repoGetWorkflowRunById env tenantId i = Inr r" using Cons.prems [of i] by auto
  then show ?case using Cons by simp
qed

lemma releases_all_fetched:
  assumes "fst (errgroup_Wait (map (releaseWorkflowRun env tenantId) ids) w) = None" and "i \<in> set ids"
  shows "\<exists>r. repoGetWorkflowRunById env tenantId i = Inr r"
proof -
  obtain w' where "fst (releaseWorkflowRun env tenantId i w') = None"
    using fst_errgroup_Wait_None [OF assms] by blast
  then show ?thesis by (simp add: fst_releaseWorkflowRun split: sum.splits)
qed

subsection \<open>Unfolding the model and the deployment\<close>

lemmas scenario_defs =
  env0_def runs0_def versions0_def versionG_def versionRR_def versionPlain_def policyG_def policyRR_def
  listed0_def stepRuns0_def popped0_def mk_run_def jobTask_def world0_def gkQ1_def gkLate_def gkPlain_def
  gkDone_def gkRR_def mk_gkr_def

lemmas run_defs =
  emit_def Now_def AddMessage_def GetWorkflowRunById_def ListWorkflowRuns_def ListStepRuns_def
  lookup_gkr_def UpdateGetGroupKeyRun_def AssignGetGroupKeyRunToWorker_def AssignGetGroupKeyRunToTicker_def
  apply_update_opts_def set_if_present_def is_terminal_def no_update_def
  getGroupActionTask_def getStepRunNotifyCancelTask_def scheduleGetGroupKeyRunTimeoutTask_def
  queueWorkflowRunJobs_def cancelWorkflowRun_def releaseWorkflowRun_def scheduleGetGroupAction_def
  runningOpts_def queuedOpts_def queueByCancelInProgress_def new_events_def Let_def

subsection \<open>The table of group-key runs\<close>

lemma lookup_gkr_trace_update [simp]: "lookup_gkr (w\<lparr>trace := t\<rparr>) = lookup_gkr w"
  by (rule ext)+ (simp add: lookup_gkr_def)

lemma lookup_gkr_ticks_update [simp]: "lookup_gkr (w\<lparr>ticks := n\<rparr>) = lookup_gkr w"
  by (rule ext)+ (simp add: lookup_gkr_def)

lemma lookup_gkr_logged [simp]: "lookup_gkr (logged evs w) = lookup_gkr w"
  by (simp add: logged_def)

lemma lookup_gkr_poppedRuns_update [simp]: "lookup_gkr (w\<lparr>poppedRuns := p\<rparr>) = lookup_gkr w"
  by (rule ext)+ (simp add: lookup_gkr_def)


lemma pop_calls_release_events [simp]: "pop_calls (release_events env tenantId workflowRunId) = []"
  by (simp add: release_events_def job_run_events_def split: sum.splits)

lemma pop_calls_concat_release_events [simp]:
  "pop_calls (concat (map (release_events env tenantId) ids)) = []"
  by (induction ids) simp_all


lemma release_phase_world:
  "errgroup_Wait (map (releaseWorkflowRun env tenantId) ids) w = (e, w') \<Longrightarrow>
     w' = logged (concat (map (release_events env tenantId) ids)) w"
  using snd_errgroup_Wait_map [of "releaseWorkflowRun env tenantId" "release_events env tenantId" ids w,
      OF snd_releaseWorkflowRun] by simp


lemma PopWorkflowRunsRoundRobin_eq:
  "PopWorkflowRunsRoundRobin env tenantId workflowVersionId maxRuns w =
     (case repoPopWorkflowRunsRoundRobin env (poppedRuns w) tenantId workflowVersionId maxRuns of
        Inl err \<Rightarrow> (Inl err, logged [RepoPopWorkflowRunsRoundRobin tenantId workflowVersionId maxRuns] w)
      | Inr batch \<Rightarrow>
          (Inr batch, logged [RepoPopWorkflowRunsRoundRobin tenantId workflowVersionId maxRuns]
                        (w\<lparr>poppedRuns := poppedRuns w @ batch\<rparr>)))"
  by (simp add: PopWorkflowRunsRoundRobin_def emit_logged Let_def logged_poppedRuns_update split: sum.splits)

lemma snd_queueByGroupRoundRobin:
  "snd (queueByGroupRoundRobin env tenantId workflowVersion w) =
     (case wv_Concurrency workflowVersion of
        None \<Rightarrow> w
      | Some c \<Rightarrow>
          (case repoPopWorkflowRunsRoundRobin env (poppedRuns w) tenantId (wc_WorkflowVersionID c) (wc_MaxRuns c) of
             Inl err \<Rightarrow>
               logged [RepoPopWorkflowRunsRoundRobin tenantId (wc_WorkflowVersionID c) (wc_MaxRuns c)] w
           | Inr popped \<Rightarrow>
               logged (RepoPopWorkflowRunsRoundRobin tenantId (wc_WorkflowVersionID c) (wc_MaxRuns c) #
                       concat (map (release_events env tenantId) popped))
                 (w\<lparr>poppedRuns := poppedRuns w @ popped\<rparr>)))"
  by (auto simp: queueByGroupRoundRobin_def PopWorkflowRunsRoundRobin_eq
      dest!: release_phase_world split: option.splits sum.splits prod.splits)






lemma gk_TenantId_apply_update_opts [simp]: "gk_TenantId (apply_update_opts opts g) = gk_TenantId g"
  by (simp add: apply_update_opts_def)








subsection \<open>The runs popped\<close>







subsection \<open>The requeue scan, run by run\<close>

lemma gk_ID_apply_update_opts [simp]: "gk_ID (apply_update_opts opts g) = gk_ID g"
  by (simp add: apply_update_opts_def)





section \<open>Claims\<close>

text \<open>
  C1.  \<open>queueByCancelInProgress\<close>, for a version with a policy.  \<open>R\<close> is what the
  repository lists for the policy's workflow version, the group key and status RUNNING,
  ordered by \<open>createdAt\<close> ascending, with no limit; \<open>Q\<close> is what it lists for the same
  version and group key and status QUEUED, ordered by \<open>createdAt\<close> ascending, with limit
  \<open>MaxRuns\<close>.  These two queries, in this order, are the routine's first calls.
  \<open>cancelWorkflowRun\<close> is called on exactly the first \<open>min |R| |Q|\<close> entries of \<open>R\<close>.
  Unless a cancellation failed, the routine then fetches exactly the first
  \<open>min MaxRuns |Q|\<close> entries of \<open>Q\<close> and enqueues the job runs of each on the job
  processing queue (the whole trace is given); when it returns nil every one of them
  was fetched and handed to \<open>queueWorkflowRunJobs\<close>.  If a cancellation failed, the
  routine stops after the cancellations.
\<close>

theorem queueByCancelInProgress_cancels_and_releases:
  assumes "wv_Concurrency workflowVersion = Some concurrency"
    and "repoListWorkflowRuns env tenantId
        \<lparr>lw_WorkflowVersionId = Some (wc_WorkflowVersionID concurrency), lw_GroupKey = Some groupKey,
          lw_Status = Some WorkflowRunStatusRunning, lw_OrderBy = Some ''createdAt'',
          lw_OrderDirection = Some ''ASC'', lw_Limit = None\<rparr> = Inr R"
    and "repoListWorkflowRuns env tenantId
        \<lparr>lw_WorkflowVersionId = Some (wc_WorkflowVersionID concurrency), lw_GroupKey = Some groupKey,
          lw_Status = Some WorkflowRunStatusQueued, lw_OrderBy = Some ''createdAt'',
          lw_OrderDirection = Some ''ASC'', lw_Limit = Some (wc_MaxRuns concurrency)\<rparr> = Inr Q"
  shows
    "cancel_calls (new_events w (snd (queueByCancelInProgress env tenantId groupKey workflowVersion w))) =
       map (Pair tenantId) (take (min (length R) (length Q)) R) \<and>
     ((\<forall>err. fst (queueByCancelInProgress env tenantId groupKey workflowVersion w) \<noteq>
               Some (Errorf ''could not cancel workflow runs'' err)) \<longrightarrow>
        new_events w (snd (queueByCancelInProgress env tenantId groupKey workflowVersion w)) =
          [RepoListWorkflowRuns tenantId
        \<lparr>lw_WorkflowVersionId = Some (wc_WorkflowVersionID concurrency), lw_GroupKey = Some groupKey,
          lw_Status = Some WorkflowRunStatusRunning, lw_OrderBy = Some ''createdAt'',
          lw_OrderDirection = Some ''ASC'', lw_Limit = None\<rparr>,
           RepoListWorkflowRuns tenantId
        \<lparr>lw_WorkflowVersionId = Some (wc_WorkflowVersionID concurrency), lw_GroupKey = Some groupKey,
          lw_Status = Some WorkflowRunStatusQueued, lw_OrderBy = Some ''createdAt'',
          lw_OrderDirection = Some ''ASC'', lw_Limit = Some (wc_MaxRuns concurrency)\<rparr>] @
          concat (map (cancel_events env tenantId) (take (min (length R) (length Q)) R)) @
          concat (map (release_events env tenantId)
                    (take (nat (min (wc_MaxRuns concurrency) (int (length Q)))) Q))) \<and>
     (fst (queueByCancelInProgress env tenantId groupKey workflowVersion w) = None \<longrightarrow>
        map Inr (released_runs
                   (new_events w (snd (queueByCancelInProgress env tenantId groupKey workflowVersion w)))) =
          map (repoGetWorkflowRunById env tenantId)
            (take (nat (min (wc_MaxRuns concurrency) (int (length Q)))) Q)) \<and>
     ((\<exists>err. fst (queueByCancelInProgress env tenantId groupKey workflowVersion w) =
               Some (Errorf ''could not cancel workflow runs'' err)) \<longrightarrow>
        new_events w (snd (queueByCancelInProgress env tenantId groupKey workflowVersion w)) =
          [RepoListWorkflowRuns tenantId
        \<lparr>lw_WorkflowVersionId = Some (wc_WorkflowVersionID concurrency), lw_GroupKey = Some groupKey,
          lw_Status = Some WorkflowRunStatusRunning, lw_OrderBy = Some ''createdAt'',
          lw_OrderDirection = Some ''ASC'', lw_Limit = None\<rparr>,
           RepoListWorkflowRuns tenantId
        \<lparr>lw_WorkflowVersionId = Some (wc_WorkflowVersionID concurrency), lw_GroupKey = Some groupKey,
          lw_Status = Some WorkflowRunStatusQueued, lw_OrderBy = Some ''createdAt'',
          lw_OrderDirection = Some ''ASC'', lw_Limit = Some (wc_MaxRuns concurrency)\<rparr>] @
          concat (map (cancel_events env tenantId) (take (min (length R) (length Q)) R)))"
proof -
  let ?k = "min (length R) (length Q)"
  let ?m = "nat (min (wc_MaxRuns concurrency) (int (length Q)))"
  let ?lists = "[RepoListWorkflowRuns tenantId
        \<lparr>lw_WorkflowVersionId = Some (wc_WorkflowVersionID concurrency), lw_GroupKey = Some groupKey,
          lw_Status = Some WorkflowRunStatusRunning, lw_OrderBy = Some ''createdAt'',
          lw_OrderDirection = Some ''ASC'', lw_Limit = None\<rparr>,
                 RepoListWorkflowRuns tenantId
        \<lparr>lw_WorkflowVersionId = Some (wc_WorkflowVersionID concurrency), lw_GroupKey = Some groupKey,
          lw_Status = Some WorkflowRunStatusQueued, lw_OrderBy = Some ''createdAt'',
          lw_OrderDirection = Some ''ASC'', lw_Limit = Some (wc_MaxRuns concurrency)\<rparr>]"
  let ?w2 = "logged ?lists w"
  let ?C = "concat (map (cancel_events env tenantId) (take ?k R))"
  let ?L = "concat (map (release_events env tenantId) (take ?m Q))"
  have tk: "take (length Q) R = take ?k R" by (simp add: min_def)
  obtain e3 w3 where c: "errgroup_Wait (map (cancelWorkflowRun env tenantId) (take ?k R)) ?w2 = (e3, w3)"
    by (cases "errgroup_Wait (map (cancelWorkflowRun env tenantId) (take ?k R)) ?w2")
  have w3: "w3 = logged (?lists @ ?C) w"
    using snd_errgroup_Wait_map [of "cancelWorkflowRun env tenantId" "cancel_events env tenantId" "take ?k R" ?w2,
        OF snd_cancelWorkflowRun] c by simp
  obtain e4 w4 where r: "errgroup_Wait (map (releaseWorkflowRun env tenantId) (take ?m Q)) w3 = (e4, w4)"
    by (cases "errgroup_Wait (map (releaseWorkflowRun env tenantId) (take ?m Q)) w3")
  have w4: "w4 = logged (?lists @ ?C @ ?L) w"
    using snd_errgroup_Wait_map [of "releaseWorkflowRun env tenantId" "release_events env tenantId" "take ?m Q" w3,
        OF snd_releaseWorkflowRun] r w3 by simp
  have run: "queueByCancelInProgress env tenantId groupKey workflowVersion w =
      (case e3 of
         Some err \<Rightarrow> (Some (Errorf ''could not cancel workflow runs'' err), w3)
       | None \<Rightarrow> (case e4 of
                    Some err \<Rightarrow> (Some (Errorf ''could not queue workflow runs'' err), w4)
                  | None \<Rightarrow> (None, w4)))"
    using assms c r
    by (simp add: queueByCancelInProgress_def ListWorkflowRuns_def emit_logged runningOpts_def queuedOpts_def
        cancelRunning_loop_eq releaseQueued_loop_eq tk split: option.splits)
  show ?thesis
  proof (cases e3)
    case (Some err)
    then show ?thesis using run w3 by simp
  next
    case None
    note e3 = None
    show ?thesis
    proof (cases e4)
      case (Some err)
      then show ?thesis using run e3 w4 by simp
    next
      case None
      have "fst (errgroup_Wait (map (releaseWorkflowRun env tenantId) (take ?m Q)) w3) = None"
        using r None by simp
      then have "\<And>i. i \<in> set (take ?m Q) \<Longrightarrow> \<exists>r. repoGetWorkflowRunById env tenantId i = Inr r"
        by (rule releases_all_fetched)
      then have "map Inr (released_runs ?L) = map (repoGetWorkflowRunById env tenantId) (take ?m Q)"
        by (rule released_runs_concat_release_events)
      then show ?thesis using run e3 None w4 by simp
    qed
  qed
qed

theorem queueByCancelInProgress_cancels_and_releases_witness:
  "wv_Concurrency versionG = Some policyG \<and>
   repoListWorkflowRuns env0 ''tenant-1''
     \<lparr>lw_WorkflowVersionId = Some ''wv-g'', lw_GroupKey = Some ''G'',
      lw_Status = Some WorkflowRunStatusRunning, lw_OrderBy = Some ''createdAt'',
      lw_OrderDirection = Some ''ASC'', lw_Limit = None\<rparr> = Inr [''r1'', ''r2''] \<and>
   repoListWorkflowRuns env0 ''tenant-1''
     \<lparr>lw_WorkflowVersionId = Some ''wv-g'', lw_GroupKey = Some ''G'',
      lw_Status = Some WorkflowRunStatusQueued, lw_OrderBy = Some ''createdAt'',
      lw_OrderDirection = Some ''ASC'', lw_Limit = Some 1\<rparr> = Inr [''q1''] \<and>
   fst (queueByCancelInProgress env0 ''tenant-1'' ''G'' versionG world0) = None \<and>
   cancel_calls (new_events world0 (snd (queueByCancelInProgress env0 ''tenant-1'' ''G'' versionG world0))) =
     [(''tenant-1'', ''r1'')] \<and>
   map Inr (released_runs
      (new_events world0 (snd (queueByCancelInProgress env0 ''tenant-1'' ''G'' versionG world0)))) =
     [Inr (mk_run ''q1'' versionG [''q1-j1'', ''q1-j2''])] \<and>
   take 2 (new_events world0 (snd (queueByCancelInProgress env0 ''tenant-1'' ''G'' versionG world0))) =
     [RepoListWorkflowRuns ''tenant-1''
        \<lparr>lw_WorkflowVersionId = Some ''wv-g'', lw_GroupKey = Some ''G'',
         lw_Status = Some WorkflowRunStatusRunning, lw_OrderBy = Some ''createdAt'',
         lw_OrderDirection = Some ''ASC'', lw_Limit = None\<rparr>,
      RepoListWorkflowRuns ''tenant-1''
        \<lparr>lw_WorkflowVersionId = Some ''wv-g'', lw_GroupKey = Some ''G'',
         lw_Status = Some WorkflowRunStatusQueued, lw_OrderBy = Some ''createdAt'',
         lw_OrderDirection = Some ''ASC'', lw_Limit = Some 1\<rparr>]"
proof -
  have p: "wv_Concurrency versionG = Some policyG"
    by (simp add: versionG_def)
  have c: "wc_WorkflowVersionID policyG = ''wv-g''" "wc_MaxRuns policyG = 1"
    by (simp_all add: policyG_def)
  have r: "repoListWorkflowRuns env0 ''tenant-1''
      \<lparr>lw_WorkflowVersionId = Some (wc_WorkflowVersionID policyG), lw_GroupKey = Some ''G'',
       lw_Status = Some WorkflowRunStatusRunning, lw_OrderBy = Some ''createdAt'',
       lw_OrderDirection = Some ''ASC'', lw_Limit = None\<rparr> = Inr [''r1'', ''r2'']"
    by (simp add: env0_def listed0_def policyG_def)
  have q: "repoListWorkflowRuns env0 ''tenant-1''
      \<lparr>lw_WorkflowVersionId = Some (wc_WorkflowVersionID policyG), lw_GroupKey = Some ''G'',
       lw_Status = Some WorkflowRunStatusQueued, lw_OrderBy = Some ''createdAt'',
       lw_OrderDirection = Some ''ASC'', lw_Limit = Some (wc_MaxRuns policyG)\<rparr> = Inr [''q1'']"
    by (simp add: env0_def listed0_def policyG_def)
  have ok: "fst (queueByCancelInProgress env0 ''tenant-1'' ''G'' versionG world0) = None"
    by (simp add: scenario_defs run_defs)
  have g: "repoGetWorkflowRunById env0 ''tenant-1'' ''q1'' = Inr (mk_run ''q1'' versionG [''q1-j1'', ''q1-j2''])"
    by (simp add: env0_def runs0_def)
  show ?thesis
    using queueByCancelInProgress_cancels_and_releases [OF p r q, of world0] p r q ok g
    by (simp add: c numeral_2_eq_2)
qed



text \<open>
  C3, as claimed: when Schedule succeeds with a worker assigned, the timeout task goes
  out on the ticker's queue before the dispatch task goes out on the dispatcher's queue.
  It does not: the dispatch task is sent first.
\<close>

theorem scheduleGetGroupAction_order_counterexample:
  "fst (scheduleGetGroupAction env0 gkQ1 world0) = None \<and>
   repoAssignGetGroupKeyRunToWorker env0 ''tenant-1'' ''gk-q1'' = Inr (''worker-1'', ''dispatcher-1'') \<and>
   map (\<lambda>(q, m). (q, msg_ID m)) (sends (new_events world0 (snd (scheduleGetGroupAction env0 gkQ1 world0)))) =
     [(QueueTypeFromDispatcherID ''dispatcher-1'', ''group-key-action-assigned''),
      (QueueTypeFromTickerID ''ticker-1'', ''schedule-get-group-key-run-timeout'')] \<and>
   map (\<lambda>(q, m). msg_ID m) (sends (new_events world0 (snd (scheduleGetGroupAction env0 gkQ1 world0)))) \<noteq>
     [''schedule-get-group-key-run-timeout'', ''group-key-action-assigned'']"
  by (simp add: scenario_defs run_defs Second_def)

text \<open>
  C3, amended: when Schedule succeeds with a worker assigned it has, in this order,
  written status PENDING_ASSIGNMENT, assigned a worker, assigned a ticker, sent the
  \<open>group-key-action-assigned\<close> task on the queue of the dispatcher, and only after that
  sent the \<open>schedule-get-group-key-run-timeout\<close> task (built before either send, with
  timeout the clock's reading plus the default step-run timeout) on the queue of the
  ticker.  It made no other call.
\<close>

theorem scheduleGetGroupAction_order:
  assumes "fst (scheduleGetGroupAction env g w) = None"
    and "repoAssignGetGroupKeyRunToWorker env (gk_TenantId g) (gk_ID g) = Inr (workerId, dispatcherId)"
  shows "\<exists>tickerId duration.
     repoAssignGetGroupKeyRunToTicker env (gk_TenantId g) (gk_ID g) = Inr tickerId \<and>
     ParseDuration env (DefaultStepRunTimeout env) = Some duration \<and>
     new_events w (snd (scheduleGetGroupAction env g w)) =
       [CallScheduleGetGroupAction g,
        RepoUpdateGetGroupKeyRun (gk_TenantId g) (gk_ID g)
          (no_update\<lparr>uo_Status := Some StepRunStatusPendingAssignment\<rparr>),
        RepoAssignGetGroupKeyRunToWorker (gk_TenantId g) (gk_ID g),
        RepoAssignGetGroupKeyRunToTicker (gk_TenantId g) (gk_ID g),
        MqAddMessage (QueueTypeFromDispatcherID dispatcherId)
          \<lparr>msg_ID = ''group-key-action-assigned'',
           msg_Payload = GroupKeyActionAssignedTaskPayload (gk_WorkflowRunId g) workerId,
           msg_Metadata = GroupKeyActionAssignedTaskMetadata (gk_TenantId g) dispatcherId,
           msg_Retries = 3\<rparr>,
        MqAddMessage (QueueTypeFromTickerID tickerId)
          \<lparr>msg_ID = ''schedule-get-group-key-run-timeout'',
           msg_Payload = ScheduleGetGroupKeyRunTimeoutTaskPayload (gk_ID g) (gk_WorkflowRunId g)
                           (formatRFC3339 env (clock env (ticks w) + duration)),
           msg_Metadata = TenantMetadata (gk_TenantId g),
           msg_Retries = 3\<rparr>]"
  using assms
  by (auto simp: scheduleGetGroupAction_def UpdateGetGroupKeyRun_def AssignGetGroupKeyRunToWorker_def
      AssignGetGroupKeyRunToTicker_def scheduleGetGroupKeyRunTimeoutTask_def AddMessage_def Now_def
      lookup_gkr_def emit_def new_events_def getGroupActionTask_def apply_update_opts_def Let_def
      split: sum.splits option.splits if_splits prod.splits)

theorem scheduleGetGroupAction_order_witness:
  "fst (scheduleGetGroupAction env0 gkQ1 world0) = None \<and>
   repoAssignGetGroupKeyRunToWorker env0 (gk_TenantId gkQ1) (gk_ID gkQ1) = Inr (''worker-1'', ''dispatcher-1'') \<and>
   map (\<lambda>e. case e of MqAddMessage q m \<Rightarrow> msg_ID m | _ \<Rightarrow> ''-'')
     (new_events world0 (snd (scheduleGetGroupAction env0 gkQ1 world0))) =
     [''-'', ''-'', ''-'', ''-'', ''group-key-action-assigned'', ''schedule-get-group-key-run-timeout'']"
proof -
  have ok: "fst (scheduleGetGroupAction env0 gkQ1 world0) = None"
    by (simp add: scenario_defs run_defs Second_def)
  have a: "repoAssignGetGroupKeyRunToWorker env0 (gk_TenantId gkQ1) (gk_ID gkQ1) = Inr (''worker-1'', ''dispatcher-1'')"
    by (simp add: env0_def)
  show ?thesis
    using scheduleGetGroupAction_order [OF ok a] ok a by auto
qed

text \<open>
  C4.  When the repository answers the worker assignment with \<open>ErrNoWorkerAvailable\<close>
  (possibly wrapped), Schedule sends no message at all; and, the group-key run being in
  the repository under the tenant, so that the assignment is reached, Schedule returns
  nil having only written status PENDING_ASSIGNMENT and asked for a worker: the run stays
  as the reconciler's scan will find it.
\<close>

theorem scheduleGetGroupAction_no_worker:
  assumes "repoAssignGetGroupKeyRunToWorker env (gk_TenantId g) (gk_ID g) = Inl err"
    and "errors_Is err ErrNoWorkerAvailable"
  shows "sends (new_events w (snd (scheduleGetGroupAction env g w))) = [] \<and>
     (lookup_gkr w (gk_TenantId g) (gk_ID g) = Inr g0 \<longrightarrow>
        fst (scheduleGetGroupAction env g w) = None \<and>
        new_events w (snd (scheduleGetGroupAction env g w)) =
          [CallScheduleGetGroupAction g,
           RepoUpdateGetGroupKeyRun (gk_TenantId g) (gk_ID g)
             (no_update\<lparr>uo_Status := Some StepRunStatusPendingAssignment\<rparr>),
           RepoAssignGetGroupKeyRunToWorker (gk_TenantId g) (gk_ID g)] \<and>
        gkrs (snd (scheduleGetGroupAction env g w)) =
          (gkrs w)(gk_ID g \<mapsto>
             apply_update_opts (no_update\<lparr>uo_Status := Some StepRunStatusPendingAssignment\<rparr>) g0))"
  using assms
  by (auto simp: scheduleGetGroupAction_def UpdateGetGroupKeyRun_def AssignGetGroupKeyRunToWorker_def
      emit_def new_events_def Let_def split: sum.splits)

theorem scheduleGetGroupAction_no_worker_witness:
  "repoAssignGetGroupKeyRunToWorker envNoWorker (gk_TenantId gkQ1) (gk_ID gkQ1) =
     Inl (Errorf ''could not assign worker'' ErrNoWorkerAvailable) \<and>
   errors_Is (Errorf ''could not assign worker'' ErrNoWorkerAvailable) ErrNoWorkerAvailable \<and>
   lookup_gkr world0 (gk_TenantId gkQ1) (gk_ID gkQ1) = Inr gkQ1 \<and>
   fst (scheduleGetGroupAction envNoWorker gkQ1 world0) = None \<and>
   sends (new_events world0 (snd (scheduleGetGroupAction envNoWorker gkQ1 world0))) = [] \<and>
   map_option gk_Status (gkrs (snd (scheduleGetGroupAction envNoWorker gkQ1 world0)) ''gk-q1'') =
     Some StepRunStatusPendingAssignment"
proof -
  have a: "repoAssignGetGroupKeyRunToWorker envNoWorker (gk_TenantId gkQ1) (gk_ID gkQ1) =
      Inl (Errorf ''could not assign worker'' ErrNoWorkerAvailable)"
    by (simp add: envNoWorker_def)
  have i: "errors_Is (Errorf ''could not assign worker'' ErrNoWorkerAvailable) ErrNoWorkerAvailable"
    by simp
  have l: "lookup_gkr world0 (gk_TenantId gkQ1) (gk_ID gkQ1) = Inr gkQ1"
    by (simp add: lookup_gkr_def world0_def gkQ1_def mk_gkr_def)
  show ?thesis
    using scheduleGetGroupAction_no_worker [OF a i, of world0 gkQ1] a i l
    by (simp add: gkQ1_def mk_gkr_def apply_update_opts_def is_terminal_def no_update_def)
qed

text \<open>
  C5.  \<open>handleWorkflowRunFinished\<close>, for a message that decodes and a workflow run the
  repository returns: \<open>PopWorkflowRunsRoundRobin\<close> is called if and only if the run's
  version has a policy with strategy GROUP_ROUND_ROBIN.  Then it is called once, with the
  policy's version and \<open>MaxRuns\<close>, and each run it returns (given the runs popped before
  the handler started) is fetched and released (its job runs enqueued), in order.  With no policy, or any other strategy, the handler returns
  nil and has made no call but the read of the run: nothing is released or cancelled.
\<close>

theorem handleWorkflowRunFinished_releases_iff_round_robin:
  assumes "msg_Payload task = WorkflowRunFinishedTask workflowRunId"
    and "validPayload env (msg_Payload task)"
    and "msg_Metadata task = TenantMetadata tenantId"
    and "validMetadata env (msg_Metadata task)"
    and "repoGetWorkflowRunById env tenantId workflowRunId = Inr workflowRun"
  shows
    "(pop_calls (new_events w (snd (handleWorkflowRunFinished env task w))) \<noteq> []) =
       (\<exists>c. wv_Concurrency (wr_WorkflowVersion workflowRun) = Some c \<and>
            wc_LimitStrategy c = ConcurrencyLimitStrategyGroupRoundRobin) \<and>
     (\<forall>c. wv_Concurrency (wr_WorkflowVersion workflowRun) = Some c \<and>
          wc_LimitStrategy c = ConcurrencyLimitStrategyGroupRoundRobin \<longrightarrow>
          pop_calls (new_events w (snd (handleWorkflowRunFinished env task w))) =
            [(tenantId, wc_WorkflowVersionID c, wc_MaxRuns c)] \<and>
          (\<forall>popped. repoPopWorkflowRunsRoundRobin env (poppedRuns w) tenantId
                      (wc_WorkflowVersionID c) (wc_MaxRuns c) = Inr popped \<longrightarrow>
             new_events w (snd (handleWorkflowRunFinished env task w)) =
               [RepoGetWorkflowRunById tenantId workflowRunId,
                RepoPopWorkflowRunsRoundRobin tenantId (wc_WorkflowVersionID c) (wc_MaxRuns c)] @
               concat (map (release_events env tenantId) popped))) \<and>
     ((\<forall>c. wv_Concurrency (wr_WorkflowVersion workflowRun) = Some c \<longrightarrow>
           wc_LimitStrategy c \<noteq> ConcurrencyLimitStrategyGroupRoundRobin) \<longrightarrow>
        fst (handleWorkflowRunFinished env task w) = None \<and>
        new_events w (snd (handleWorkflowRunFinished env task w)) =
          [RepoGetWorkflowRunById tenantId workflowRunId])"
proof (cases "wv_Concurrency (wr_WorkflowVersion workflowRun)")
  case None
  then show ?thesis using assms
    by (simp add: handleWorkflowRunFinished_def decodeWorkflowRunFinished_def decodeTenantMetadata_def
        GetWorkflowRunById_def emit_logged)
next
  case (Some c)
  show ?thesis
  proof (cases "wc_LimitStrategy c = ConcurrencyLimitStrategyGroupRoundRobin")
    case False
    then show ?thesis using assms Some
      by (simp add: handleWorkflowRunFinished_def decodeWorkflowRunFinished_def decodeTenantMetadata_def
          GetWorkflowRunById_def emit_logged split: limit_strategy.splits)
  next
    case True
    let ?w1 = "logged [RepoGetWorkflowRunById tenantId workflowRunId] w"
    let ?pop = "RepoPopWorkflowRunsRoundRobin tenantId (wc_WorkflowVersionID c) (wc_MaxRuns c)"
    have run: "snd (handleWorkflowRunFinished env task w) =
        snd (queueByGroupRoundRobin env tenantId (wr_WorkflowVersion workflowRun) ?w1)"
      using assms Some True
      by (simp add: handleWorkflowRunFinished_def decodeWorkflowRunFinished_def decodeTenantMetadata_def
          GetWorkflowRunById_def emit_logged split: option.splits prod.splits)
    have rr: "snd (queueByGroupRoundRobin env tenantId (wr_WorkflowVersion workflowRun) ?w1) =
        (case repoPopWorkflowRunsRoundRobin env (poppedRuns w) tenantId
                (wc_WorkflowVersionID c) (wc_MaxRuns c) of
           Inl err \<Rightarrow> logged [RepoGetWorkflowRunById tenantId workflowRunId, ?pop] w
         | Inr popped \<Rightarrow>
             logged ([RepoGetWorkflowRunById tenantId workflowRunId, ?pop] @
                     concat (map (release_events env tenantId) popped))
               (w\<lparr>poppedRuns := poppedRuns w @ popped\<rparr>))"
      using Some
      by (simp add: snd_queueByGroupRoundRobin logged_poppedRuns_update [symmetric] split: sum.splits)
    show ?thesis
      using Some True by (simp add: run rr split: sum.splits)
  qed
qed

theorem handleWorkflowRunFinished_releases_iff_round_robin_witness:
  "msg_Payload runFinishedU1 = WorkflowRunFinishedTask ''u1'' \<and>
   validPayload env0 (msg_Payload runFinishedU1) \<and>
   msg_Metadata runFinishedU1 = TenantMetadata ''tenant-1'' \<and>
   validMetadata env0 (msg_Metadata runFinishedU1) \<and>
   repoGetWorkflowRunById env0 ''tenant-1'' ''u1'' = Inr (mk_run ''u1'' versionRR [''u1-j1'']) \<and>
   repoPopWorkflowRunsRoundRobin env0 (poppedRuns world0) ''tenant-1'' ''wv-rr'' 2 = Inr [''a1'', ''b1''] \<and>
   pop_calls (new_events world0 (snd (handleWorkflowRunFinished env0 runFinishedU1 world0))) =
     [(''tenant-1'', ''wv-rr'', 2)] \<and>
   released_runs (new_events world0 (snd (handleWorkflowRunFinished env0 runFinishedU1 world0))) =
     [mk_run ''a1'' versionRR [''a1-j1''], mk_run ''b1'' versionRR [''b1-j1'']] \<and>
   msg_Payload runFinishedR1 = WorkflowRunFinishedTask ''r1'' \<and>
   repoGetWorkflowRunById env0 ''tenant-1'' ''r1'' = Inr (mk_run ''r1'' versionG [''r1-j1'']) \<and>
   fst (handleWorkflowRunFinished env0 runFinishedR1 world0) = None \<and>
   new_events world0 (snd (handleWorkflowRunFinished env0 runFinishedR1 world0)) =
     [RepoGetWorkflowRunById ''tenant-1'' ''r1'']"
proof -
  have u: "msg_Payload runFinishedU1 = WorkflowRunFinishedTask ''u1''"
    "validPayload env0 (msg_Payload runFinishedU1)"
    "msg_Metadata runFinishedU1 = TenantMetadata ''tenant-1''"
    "validMetadata env0 (msg_Metadata runFinishedU1)"
    "repoGetWorkflowRunById env0 ''tenant-1'' ''u1'' = Inr (mk_run ''u1'' versionRR [''u1-j1''])"
    by (simp_all add: runFinishedU1_def mk_task_def env0_def runs0_def)
  have r: "msg_Payload runFinishedR1 = WorkflowRunFinishedTask ''r1''"
    "validPayload env0 (msg_Payload runFinishedR1)"
    "msg_Metadata runFinishedR1 = TenantMetadata ''tenant-1''"
    "validMetadata env0 (msg_Metadata runFinishedR1)"
    "repoGetWorkflowRunById env0 ''tenant-1'' ''r1'' = Inr (mk_run ''r1'' versionG [''r1-j1''])"
    by (simp_all add: runFinishedR1_def mk_task_def env0_def runs0_def)
  have p: "repoPopWorkflowRunsRoundRobin env0 (poppedRuns world0) ''tenant-1'' ''wv-rr'' 2 = Inr [''a1'', ''b1'']"
    by (simp add: env0_def popped0_def world0_def)
  have vu: "wv_Concurrency (wr_WorkflowVersion (mk_run ''u1'' versionRR [''u1-j1''])) = Some policyRR"
    "wc_LimitStrategy policyRR = ConcurrencyLimitStrategyGroupRoundRobin"
    "wc_WorkflowVersionID policyRR = ''wv-rr''" "wc_MaxRuns policyRR = 2"
    by (simp_all add: mk_run_def versionRR_def policyRR_def)
  have vr: "wv_Concurrency (wr_WorkflowVersion (mk_run ''r1'' versionG [''r1-j1''])) = Some policyG"
    "wc_LimitStrategy policyG = ConcurrencyLimitStrategyCancelInProgress"
    by (simp_all add: mk_run_def versionG_def policyG_def)
  have g: "repoGetWorkflowRunById env0 ''tenant-1'' ''a1'' = Inr (mk_run ''a1'' versionRR [''a1-j1''])"
    "repoGetWorkflowRunById env0 ''tenant-1'' ''b1'' = Inr (mk_run ''b1'' versionRR [''b1-j1''])"
    by (simp_all add: env0_def runs0_def)
  show ?thesis
    using handleWorkflowRunFinished_releases_iff_round_robin [OF u, of world0]
      handleWorkflowRunFinished_releases_iff_round_robin [OF r, of world0] u r p
    by (simp add: vu vr g release_events_def job_run_events_def)
qed

text \<open>
  C6.  The claim: for a workflow version with no concurrency policy the admission
  engine, invoked through a successful \<open>get-group-key-run-finished\<close>, returns without
  error.  The handler does not: it reads the limit strategy through the policy pointer
  before either strategy routine checks that there is a policy, and fails.  The two
  routines it would call do return nil for a version with no policy.
\<close>

theorem handleGroupKeyRunFinished_absent_policy_fails:
  "repoGetWorkflowVersionById env0 ''tenant-1'' (gk_WorkflowVersionId gkPlain) = Inr versionPlain \<and>
   wv_Concurrency versionPlain = None \<and>
   fst (handleTask env0 finishedPlain world0) =
     Some (Panic ''invalid memory address or nil pointer dereference'') \<and>
   fst (queueByCancelInProgress env0 ''tenant-1'' ''G'' versionPlain world0) = None \<and>
   fst (queueByGroupRoundRobin env0 ''tenant-1'' versionPlain world0) = None"
  by (simp add: scenario_defs run_defs finishedPlain_def mk_task_def handleTask_def
      handleGroupKeyRunFinished_def decodeGroupKeyRunFinished_def decodeTenantMetadata_def
      admitByLimitStrategy_def cancelTimeout_def cancelGetGroupKeyRunTimeoutTask_def
      GetWorkflowVersionById_def queueByGroupRoundRobin_def)

lemma admitByLimitStrategy_absent_policy:
  assumes "repoGetWorkflowVersionById env tenantId (gk_WorkflowVersionId groupKeyRun) = Inr workflowVersion"
    and "wv_Concurrency workflowVersion = None"
  shows "fst (admitByLimitStrategy env tenantId groupKey groupKeyRun w) =
           Some (Panic ''invalid memory address or nil pointer dereference'')"
  using assms by (simp add: admitByLimitStrategy_def GetWorkflowVersionById_def)

text \<open>
  C7.  \<open>cancelWorkflowRun\<close> writes nothing to the repository: the table of group-key runs
  and the runs popped are as before and no call it makes is a write (it reads the workflow
  run and lists its step runs).  When both reads succeed it sends, on the job processing queue, one
  \<open>step-run-cancelled\<close> message with reason \<open>CANCELLED_BY_CONCURRENCY_LIMIT\<close> for each step
  run the repository lists for the run with status RUNNING, and nothing else.
\<close>

theorem cancelWorkflowRun_sends_and_frame:
  "gkrs (snd (cancelWorkflowRun env tenantId workflowRunId w)) = gkrs w \<and>
   poppedRuns (snd (cancelWorkflowRun env tenantId workflowRunId w)) = poppedRuns w \<and>
   filter is_repo_write (new_events w (snd (cancelWorkflowRun env tenantId workflowRunId w))) = [] \<and>
   (repoGetWorkflowRunById env tenantId workflowRunId = Inr workflowRun \<longrightarrow>
    repoListStepRuns env tenantId
      \<lparr>ls_WorkflowRunId = Some (wr_ID workflowRun), ls_Status = Some StepRunStatusRunning\<rparr> = Inr stepRuns \<longrightarrow>
    sends (new_events w (snd (cancelWorkflowRun env tenantId workflowRunId w))) =
      map (\<lambda>stepRun. (JOB_PROCESSING_QUEUE,
             \<lparr>msg_ID = ''step-run-cancelled'',
              msg_Payload = StepRunNotifyCancelTaskPayload (sr_ID stepRun) ''CANCELLED_BY_CONCURRENCY_LIMIT'',
              msg_Metadata = TenantMetadata tenantId,
              msg_Retries = 3\<rparr>)) stepRuns)"
proof -
  have "filter is_repo_write (cancel_events env tenantId workflowRunId) = []"
    by (simp add: cancel_events_def split: sum.splits)
  moreover have "sends (cancel_events env tenantId workflowRunId) =
      map (\<lambda>stepRun. (JOB_PROCESSING_QUEUE,
             getStepRunNotifyCancelTask tenantId (sr_ID stepRun) ''CANCELLED_BY_CONCURRENCY_LIMIT'')) stepRuns"
    if "repoGetWorkflowRunById env tenantId workflowRunId = Inr workflowRun"
      and "repoListStepRuns env tenantId
        \<lparr>ls_WorkflowRunId = Some (wr_ID workflowRun), ls_Status = Some StepRunStatusRunning\<rparr> = Inr stepRuns"
    using that by (simp add: cancel_events_def)
  ultimately show ?thesis
    by (simp add: snd_cancelWorkflowRun getStepRunNotifyCancelTask_def)
qed

theorem cancelWorkflowRun_sends_and_frame_witness:
  "repoGetWorkflowRunById env0 ''tenant-1'' ''r1'' = Inr (mk_run ''r1'' versionG [''r1-j1'']) \<and>
   repoListStepRuns env0 ''tenant-1''
     \<lparr>ls_WorkflowRunId = Some ''r1'', ls_Status = Some StepRunStatusRunning\<rparr>
     = Inr [\<lparr>sr_ID = ''s1''\<rparr>, \<lparr>sr_ID = ''s2''\<rparr>] \<and>
   gkrs (snd (cancelWorkflowRun env0 ''tenant-1'' ''r1'' world0)) = gkrs world0 \<and>
   sends (new_events world0 (snd (cancelWorkflowRun env0 ''tenant-1'' ''r1'' world0))) =
     [(JOB_PROCESSING_QUEUE,
        \<lparr>msg_ID = ''step-run-cancelled'',
         msg_Payload = StepRunNotifyCancelTaskPayload ''s1'' ''CANCELLED_BY_CONCURRENCY_LIMIT'',
         msg_Metadata = TenantMetadata ''tenant-1'', msg_Retries = 3\<rparr>),
      (JOB_PROCESSING_QUEUE,
        \<lparr>msg_ID = ''step-run-cancelled'',
         msg_Payload = StepRunNotifyCancelTaskPayload ''s2'' ''CANCELLED_BY_CONCURRENCY_LIMIT'',
         msg_Metadata = TenantMetadata ''tenant-1'', msg_Retries = 3\<rparr>)]"
proof -
  have g: "repoGetWorkflowRunById env0 ''tenant-1'' ''r1'' = Inr (mk_run ''r1'' versionG [''r1-j1''])"
    by (simp add: env0_def runs0_def)
  have l: "repoListStepRuns env0 ''tenant-1''
       \<lparr>ls_WorkflowRunId = Some (wr_ID (mk_run ''r1'' versionG [''r1-j1''])),
        ls_Status = Some StepRunStatusRunning\<rparr> = Inr [\<lparr>sr_ID = ''s1''\<rparr>, \<lparr>sr_ID = ''s2''\<rparr>]"
    by (simp add: env0_def stepRuns0_def mk_run_def)
  show ?thesis
    using cancelWorkflowRun_sends_and_frame
      [of env0 "''tenant-1''" "''r1''" world0 "mk_run ''r1'' versionG [''r1-j1'']"
          "[\<lparr>sr_ID = ''s1''\<rparr>, \<lparr>sr_ID = ''s2''\<rparr>]"] g l
    by (simp add: mk_run_def)
qed

text \<open>
  C8, as claimed: the function \<open>Start\<close> returns runs all four steps (cancel the root
  context, unsubscribe, wait for the handlers, stop the scheduler) in every execution.
  It does not: when the queue's cleanup returns an error the function returns at once,
  and neither waits for the handlers nor stops the scheduler.
\<close>

theorem shutdown_all_steps_counterexample:
  "Start senvUnsubscribeFails [] =
     (Inr (cleanup senvUnsubscribeFails), [NewJobRequeue, NewJobReassign, SchedulerStart, Subscribe]) \<and>
   cleanup senvUnsubscribeFails [] =
     (Some (Errorf ''could not cleanup queue'' (ErrExternal ''channel closed'')),
      [CancelRootContext, CleanupQueue]) \<and>
   WaitGroupWait \<notin> set (snd (cleanup senvUnsubscribeFails [])) \<and>
   SchedulerShutdown \<notin> set (snd (cleanup senvUnsubscribeFails []))"
  by (simp add: Start_def cleanup_def senvUnsubscribeFails_def)

text \<open>
  C8, amended: the function \<open>Start\<close> returns is \<open>cleanup\<close>.  It always cancels the root
  context and then unsubscribes.  If unsubscribing succeeds it goes on to wait for the
  handlers and to stop the scheduler, so all four steps run, also when stopping the
  scheduler returns an error, which is then returned.  If unsubscribing fails it returns
  that error and takes no further step.
\<close>

theorem shutdown_steps:
  "(case fst (Start senv steps0) of Inr shutdown \<Rightarrow> shutdown = cleanup senv | Inl err \<Rightarrow> True) \<and>
   snd (cleanup senv steps) =
     steps @ (case cleanupQueue_err senv of
                Some err \<Rightarrow> [CancelRootContext, CleanupQueue]
              | None \<Rightarrow> [CancelRootContext, CleanupQueue, WaitGroupWait, SchedulerShutdown]) \<and>
   fst (cleanup senv steps) =
     (case cleanupQueue_err senv of
        Some err \<Rightarrow> Some (Errorf ''could not cleanup queue'' err)
      | None \<Rightarrow> (case schedulerShutdown_err senv of
                   Some err \<Rightarrow> Some (Errorf ''could not shutdown scheduler'' err)
                 | None \<Rightarrow> None))"
  by (simp add: Start_def cleanup_def Let_def split: option.splits)

theorem shutdown_steps_witness:
  "snd (cleanup senvShutdownFails []) = [CancelRootContext, CleanupQueue, WaitGroupWait, SchedulerShutdown] \<and>
   fst (cleanup senvShutdownFails []) =
     Some (Errorf ''could not shutdown scheduler'' (ErrExternal ''scheduler busy''))"
  using shutdown_steps [of senvShutdownFails "[]" "[]"]
  by (simp add: senvShutdownFails_def)




text \<open>
  C10.  \<open>queueWorkflowRunJobs\<close> returns nil for every workflow run and every behaviour
  of the queue: the error of a failed send is assigned to the variable the loop body
  declares, never to the one the function returns.  A send is attempted for each job run,
  in order, whatever the earlier sends returned.
\<close>

theorem queueWorkflowRunJobs_returns_nil:
  "fst (queueWorkflowRunJobs env workflowRun w) = None \<and>
   new_events w (snd (queueWorkflowRunJobs env workflowRun w)) =
     CallQueueWorkflowRunJobs workflowRun #
     map (\<lambda>jobRun. MqAddMessage JOB_PROCESSING_QUEUE (JobRunQueuedToTask env jobRun)) (wr_JobRuns workflowRun)"
  by (simp add: fst_queueWorkflowRunJobs snd_queueWorkflowRunJobs job_run_events_def)

theorem queueWorkflowRunJobs_returns_nil_witness:
  "mqAddMessage envQueueDown 1 JOB_PROCESSING_QUEUE (jobTask \<lparr>jr_ID = ''q1-j1'', jr_Job = ''job-1''\<rparr>)
     = Some (ErrExternal ''queue down'') \<and>
   fst (queueWorkflowRunJobs envQueueDown (mk_run ''q1'' versionG [''q1-j1'', ''q1-j2'']) world0) = None \<and>
   sends (new_events world0
     (snd (queueWorkflowRunJobs envQueueDown (mk_run ''q1'' versionG [''q1-j1'', ''q1-j2'']) world0))) =
     [(JOB_PROCESSING_QUEUE, jobTask \<lparr>jr_ID = ''q1-j1'', jr_Job = ''job-1''\<rparr>),
      (JOB_PROCESSING_QUEUE, jobTask \<lparr>jr_ID = ''q1-j2'', jr_Job = ''job-1''\<rparr>)]"
  using queueWorkflowRunJobs_returns_nil [of envQueueDown "mk_run ''q1'' versionG [''q1-j1'', ''q1-j2'']" world0]
  by (simp add: envQueueDown_def env0_def mk_run_def)

end
